theory Spec2Isabelle
  imports Complex_Main "HOL-Library.Word" "HOL-Library.Signed_Division"
begin

section \<open>Fuzzy decision engine\<close>

text \<open>
  The lane controllers compute the green-light duration with three membership functions
  over the vehicle count and a centroid defuzzification. The arithmetic of the source is
  read in two ways. In the first the C++ type \<^verbatim>\<open>float\<close> is modelled by \<^typ>\<open>real\<close>:
  the functions \<open>sedikit\<close>, \<open>sedang\<close>, \<open>padat\<close> and \<open>defuzzify\<close> are the arithmetic the
  source writes down, read over the real numbers. In the second every operation is
  rounded as the types \<^verbatim>\<open>float\<close> and \<^verbatim>\<open>double\<close> round it: these are the functions
  with the suffix \<open>_float\<close> of the lane controller, and the membership functions of the
  console simulation.
\<close>

subsection \<open>Lane controller (esp32\_lane3.ino; esp1\_lane1.cpp has the same text)\<close>

text \<open>
  In esp32\_lane3.ino the membership functions are at lines 88 to 117, \<^verbatim>\<open>defuzzify\<close> at
  lines 726 to 756 and \<^verbatim>\<open>isJamSibuk\<close> at lines 651 to 654; in esp1\_lane1.cpp at lines
  74 to 103, 426 to 456 and 397 to 400.
\<close>

definition sedikit :: "real \<Rightarrow> real" where
  "sedikit x =
     (if x \<le> 3 then 1
      else if x > 3 \<and> x < 5 then (5 - x) / 2
      else 0)"

definition sedang :: "real \<Rightarrow> real" where
  "sedang x =
     (if x \<le> 3 \<or> x \<ge> 10 then 0
      else if x > 3 \<and> x \<le> 5 then (x - 3) / 2
      else if x > 5 \<and> x < 10 then (10 - x) / 5
      else 0)"

definition padat :: "real \<Rightarrow> real" where
  "padat x =
     (if x \<le> 5 then 0
      else if x > 5 \<and> x < 10 then (x - 5) / 5
      else 1)"

text \<open>
  \<^verbatim>\<open>defuzzify\<close> first evaluates the three membership degrees and then works on them
  only. \<open>defuzzify_body\<close> is that second part (the base durations, numerator,
  denominator, the zero test and the division), taking the three degrees as arguments.
\<close>

definition defuzzify_body :: "real \<Rightarrow> real \<Rightarrow> real \<Rightarrow> bool \<Rightarrow> real" where
  "defuzzify_body mu_sedikit mu_sedang mu_padat jamSibuk =
     (let durasi_pendek = (if jamSibuk then 15 else 10);
          durasi_sedang = (if jamSibuk then 30 else 20);
          durasi_lama = (if jamSibuk then 60 else 40);
          numerator = (mu_sedikit * durasi_pendek) + (mu_sedang * durasi_sedang)
                      + (mu_padat * durasi_lama);
          denominator = mu_sedikit + mu_sedang + mu_padat
      in if denominator = 0 then (if jamSibuk then 30 else 20)
         else numerator / denominator)"

definition defuzzify :: "real \<Rightarrow> bool \<Rightarrow> real" where
  "defuzzify kendaraan jamSibuk =
     defuzzify_body (sedikit kendaraan) (sedang kendaraan) (padat kendaraan) jamSibuk"

definition isJamSibuk :: "int \<Rightarrow> bool" where
  "isJamSibuk jam \<longleftrightarrow> (jam \<ge> 7 \<and> jam \<le> 9) \<or> (jam \<ge> 17 \<and> jam \<le> 19)"

text \<open>The copy of the predicate in esp1\_lane1.cpp.\<close>

definition isJamSibuk_lane1 :: "int \<Rightarrow> bool" where
  "isJamSibuk_lane1 jam \<longleftrightarrow> (jam \<ge> 7 \<and> jam \<le> 9) \<or> (jam \<ge> 17 \<and> jam \<le> 19)"

subsection \<open>Binary floating point\<close>

text \<open>
  The C++ types \<^verbatim>\<open>float\<close> and \<^verbatim>\<open>double\<close> are IEEE 754 binary32 and binary64. A
  finite value of such a type is a real number with at most 24, respectively 53,
  significant binary digits, and an operation returns its exact result rounded to the
  nearest such number, a tie going to the number whose last digit is even. Every
  operation is rounded on its own, in the type the language gives it: no wider
  intermediate results and no fused multiply-add.

  \<open>round_binary p\<close> is this rounding to \<open>p\<close> significant digits. The range of the
  exponent is not limited: overflow, subnormal numbers and NaN are not modelled. For
  arguments of type \<^verbatim>\<open>float\<close> the numbers that the functions below round are 0 or lie
  between 2 to the power -24 and 60, far inside the range of both types.
\<close>

text \<open>The number of binary digits of a natural number.\<close>

fun bit_length :: "nat \<Rightarrow> nat" where
  "bit_length n = (if n = 0 then 0 else Suc (bit_length (n div 2)))"

declare bit_length.simps [simp del]

definition pow2 :: "int \<Rightarrow> real" where
  "pow2 e = (if e \<ge> 0 then 2 ^ nat e else 1 / 2 ^ nat (- e))"

text \<open>The exponent \<open>e\<close> of a number \<open>x \<noteq> 0\<close>: \<open>pow2 e \<le> \<bar>x\<bar> < pow2 (e + 1)\<close>.\<close>

definition exponent2 :: "real \<Rightarrow> int" where
  "exponent2 x =
     (let a = \<bar>x\<bar>
      in if a \<ge> 1 then int (bit_length (nat \<lfloor>a\<rfloor>)) - 1
         else (let k = int (bit_length (nat \<lfloor>1 / a\<rfloor>)) - 1
               in if a * 2 ^ nat k = 1 then - k else - k - 1))"

definition round_ties_even :: "real \<Rightarrow> int" where
  "round_ties_even r =
     (let f = \<lfloor>r\<rfloor>; d = r - of_int f
      in if d < 1 / 2 then f
         else if d > 1 / 2 then f + 1
         else if even f then f else f + 1)"

definition round_binary :: "nat \<Rightarrow> real \<Rightarrow> real" where
  "round_binary p x =
     (if x = 0 then 0
      else (let q = pow2 (exponent2 x - int p + 1)
            in of_int (round_ties_even (x / q)) * q))"

definition to_float :: "real \<Rightarrow> real" where
  "to_float x = round_binary 24 x"

definition to_double :: "real \<Rightarrow> real" where
  "to_double x = round_binary 53 x"

text \<open>The sum \<^verbatim>\<open>a + b + c\<close> of three values of type \<^verbatim>\<open>float\<close>, added from the left.\<close>

definition float_sum3 :: "real \<Rightarrow> real \<Rightarrow> real \<Rightarrow> real" where
  "float_sum3 a b c = to_float (to_float (a + b) + c)"

subsection \<open>Lane controller, as the types float and double compute\<close>

text \<open>
  In \<^verbatim>\<open>(5 - x) / 2.0\<close> the difference is taken in \<^verbatim>\<open>float\<close> (the integer constant is
  converted, exactly, to \<^verbatim>\<open>float\<close>), the quotient in \<^verbatim>\<open>double\<close> (the constant
  \<^verbatim>\<open>2.0\<close> is a \<^verbatim>\<open>double\<close>), and the \<^verbatim>\<open>return\<close> converts the quotient to
  \<^verbatim>\<open>float\<close>. The comparisons and the constants returned are exact.
\<close>

definition sedikit_float :: "real \<Rightarrow> real" where
  "sedikit_float x =
     (if x \<le> 3 then 1
      else if x > 3 \<and> x < 5 then to_float (to_double (to_float (5 - x) / 2))
      else 0)"

definition sedang_float :: "real \<Rightarrow> real" where
  "sedang_float x =
     (if x \<le> 3 \<or> x \<ge> 10 then 0
      else if x > 3 \<and> x \<le> 5 then to_float (to_double (to_float (x - 3) / 2))
      else if x > 5 \<and> x < 10 then to_float (to_double (to_float (10 - x) / 5))
      else 0)"

definition padat_float :: "real \<Rightarrow> real" where
  "padat_float x =
     (if x \<le> 5 then 0
      else if x > 5 \<and> x < 10 then to_float (to_double (to_float (x - 5) / 5))
      else 1)"

text \<open>
  In \<^verbatim>\<open>defuzzify\<close> all operands are of type \<^verbatim>\<open>float\<close>: the three products, the two
  sums of the numerator, the two sums of the denominator and the quotient are each
  rounded to \<^verbatim>\<open>float\<close>.
\<close>

definition float_numerator :: "real \<Rightarrow> real \<Rightarrow> real \<Rightarrow> bool \<Rightarrow> real" where
  "float_numerator mu_sedikit mu_sedang mu_padat jamSibuk =
     (let durasi_pendek = (if jamSibuk then 15 else 10);
          durasi_sedang = (if jamSibuk then 30 else 20);
          durasi_lama = (if jamSibuk then 60 else 40)
      in to_float (to_float (to_float (mu_sedikit * durasi_pendek)
                             + to_float (mu_sedang * durasi_sedang))
                   + to_float (mu_padat * durasi_lama)))"

definition defuzzify_float_body :: "real \<Rightarrow> real \<Rightarrow> real \<Rightarrow> bool \<Rightarrow> real" where
  "defuzzify_float_body mu_sedikit mu_sedang mu_padat jamSibuk =
     (let numerator = float_numerator mu_sedikit mu_sedang mu_padat jamSibuk;
          denominator = float_sum3 mu_sedikit mu_sedang mu_padat
      in if denominator = 0 then (if jamSibuk then 30 else 20)
         else to_float (numerator / denominator))"

definition defuzzify_float :: "real \<Rightarrow> bool \<Rightarrow> real" where
  "defuzzify_float kendaraan jamSibuk =
     defuzzify_float_body (sedikit_float kendaraan) (sedang_float kendaraan)
       (padat_float kendaraan) jamSibuk"

subsection \<open>Console simulation (the four-lane program reading from standard input)\<close>

text \<open>
  The stand-alone simulation carries its own membership functions (lines 22 to 51 of its
  file) and its own rush-hour predicate (lines 68 to 83). Its output on the console is not
  modelled. The vehicle count is read from the console into a \<^verbatim>\<open>float\<close>, so the
  functions are called with counts that are not whole numbers too. They are modelled as
  the types compute them: in \<^verbatim>\<open>(30 - x) / 20.0\<close> the difference is rounded to
  \<^verbatim>\<open>float\<close>, the quotient to \<^verbatim>\<open>double\<close> and the value returned to \<^verbatim>\<open>float\<close>.
\<close>

definition sedikit_sim :: "real \<Rightarrow> real" where
  "sedikit_sim x =
     (if x \<le> 10 then 1
      else if x > 10 \<and> x \<le> 30 then to_float (to_double (to_float (30 - x) / 20))
      else 0)"

definition sedang_sim :: "real \<Rightarrow> real" where
  "sedang_sim x =
     (if x \<le> 10 \<or> x \<ge> 50 then 0
      else if x > 10 \<and> x \<le> 30 then to_float (to_double (to_float (x - 10) / 20))
      else if x > 30 \<and> x < 50 then to_float (to_double (to_float (50 - x) / 20))
      else 0)"

definition padat_sim :: "real \<Rightarrow> real" where
  "padat_sim x =
     (if x \<le> 30 then 0
      else if x > 30 \<and> x \<le> 50 then to_float (to_double (to_float (x - 30) / 20))
      else 1)"

text \<open>The same three functions without any rounding, read over the real numbers.\<close>

definition sedikit_sim_exact :: "real \<Rightarrow> real" where
  "sedikit_sim_exact x =
     (if x \<le> 10 then 1
      else if x > 10 \<and> x \<le> 30 then (30 - x) / 20
      else 0)"

definition sedang_sim_exact :: "real \<Rightarrow> real" where
  "sedang_sim_exact x =
     (if x \<le> 10 \<or> x \<ge> 50 then 0
      else if x > 10 \<and> x \<le> 30 then (x - 10) / 20
      else if x > 30 \<and> x < 50 then (50 - x) / 20
      else 0)"

definition padat_sim_exact :: "real \<Rightarrow> real" where
  "padat_sim_exact x =
     (if x \<le> 30 then 0
      else if x > 30 \<and> x \<le> 50 then (x - 30) / 20
      else 1)"

definition isJamSibuk_sim :: "int \<Rightarrow> bool" where
  "isJamSibuk_sim jam \<longleftrightarrow> (jam \<ge> 7 \<and> jam \<le> 9) \<or> (jam \<ge> 16 \<and> jam \<le> 19)"

subsection \<open>The centroid formula as the specification writes it\<close>

text \<open>
  The specification's formula, the sum of membership times base duration over the sum of
  the memberships, on lists of equal length. It is compared with \<open>defuzzify\<close> below.
\<close>

definition weighted_centroid :: "real list \<Rightarrow> real list \<Rightarrow> real" where
  "weighted_centroid mus ds = (\<Sum>(m, d) \<leftarrow> zip mus ds. m * d) / sum_list mus"

definition baseDurations :: "bool \<Rightarrow> real list" where
  "baseDurations jamSibuk = (if jamSibuk then [15, 30, 60] else [10, 20, 40])"

definition fallbackDuration :: "bool \<Rightarrow> real" where
  "fallbackDuration jamSibuk = (if jamSibuk then 30 else 20)"

section \<open>Lane controller: data\<close>

text \<open>
  The controller of lane 3 (esp32\_lane3.ino). Global variables become the fields of one
  state record, threaded through every function. What the controller sends out (calls of
  \<^verbatim>\<open>mqtt_client.publish\<close> and the writes to the three lamp pins) is appended to the
  field \<open>trace\<close>; output on the serial console is left out. Readings of the clock
  (\<^verbatim>\<open>getCurrentTimestamp\<close>, \<^verbatim>\<open>millis\<close>) are inputs, collected in the record \<open>env\<close>.
  C++ \<^verbatim>\<open>int\<close> values are modelled by \<^typ>\<open>int\<close>: the only arithmetic on them is
  on lane numbers and on two-digit hour and minute fields.
\<close>

definition LANE_ID :: int where
  "LANE_ID = 3"

definition ROAD_SECTION_ID :: int where
  "ROAD_SECTION_ID = 3"

record MqttData =
  road_section_id :: int
  total_vehicles :: int
  timestamp :: string
  new_data :: bool
  duration_published :: bool
  green_request_sent :: bool
  data_received_time :: "32 word"

record TrafficLight =
  red :: bool
  yellow :: bool
  green :: bool

datatype out_msg =
    GreenPermissionMsg int int             \<comment> \<open>section, from\_section; permission is "granted"\<close>
  | GreenStatusMsg int string string       \<comment> \<open>section, status, timestamp\<close>
  | GreenRequestMsg int string "32 word"   \<comment> \<open>section, timestamp, data\_received\_time\<close>
  | CountdownSyncMsg int int string "32 word"  \<comment> \<open>lane\_id, remaining\_seconds, phase, millis / 1000\<close>
  | DurationMsg int int real string        \<comment> \<open>road\_section\_id, total\_vehicles, duration, timestamp\<close>
  | NextLaneReadyMsg int int               \<comment> \<open>next\_expected\_section, from\_lane\<close>

datatype event =
    DigitalWrite bool bool bool   \<comment> \<open>the red, yellow and green pins, written by setTrafficLight\<close>
  | Publish out_msg

record node =
  vehicleCount :: real
  lastReceivedData :: MqttData
  currentGreenSection :: int
  greenLightRequested :: bool
  waitingForGreenPermission :: bool
  nextExpectedSection :: int
  light :: TrafficLight
  trace :: "event list"

record env =
  currentTimestamp :: string   \<comment> \<open>what getCurrentTimestamp() returns\<close>
  millis :: "32 word"          \<comment> \<open>what millis() returns\<close>

text \<open>
  Inbound messages, after \<^verbatim>\<open>deserializeJson\<close>: \<open>None\<close> for a payload that fails to
  parse, otherwise the fields the handler reads, each \<open>None\<close> when the key is absent.
\<close>

record vehicle_count_doc =
  vc_road_section_id :: "int option"
  vc_total_vehicles :: "int option"
  vc_vehicle_counts :: "int list option"
  vc_timestamp :: "string option"

record green_status_doc =
  gs_section :: "int option"
  gs_status :: "string option"

record green_request_doc =
  gr_section :: "int option"
  gr_data_received_time :: "32 word option"

record green_permission_doc =
  gp_section :: "int option"
  gp_permission :: "string option"

record next_lane_doc =
  nl_next_expected_section :: "int option"
  nl_from_lane :: "int option"

datatype inbound =
    CountdownSync string                              \<comment> \<open>traffic/countdown\_sync, raw payload\<close>
  | VehicleCount "vehicle_count_doc option"           \<comment> \<open>traffic/vehicle\_count\<close>
  | GreenStatus "green_status_doc option"             \<comment> \<open>traffic/green\_status\<close>
  | GreenRequest "green_request_doc option"           \<comment> \<open>traffic/green\_request\<close>
  | GreenPermission "green_permission_doc option"     \<comment> \<open>traffic/green\_permission\<close>
  | ResetCmd string                                   \<comment> \<open>traffic/reset, raw payload\<close>
  | NextLaneReady "next_lane_doc option"              \<comment> \<open>traffic/next\_lane\_ready\<close>
  | OtherTopic string string                          \<comment> \<open>any other topic\<close>

section \<open>Lane controller: strings\<close>

text \<open>The operations of the Arduino \<^verbatim>\<open>String\<close> class that the handlers use.\<close>

definition isspace :: "char \<Rightarrow> bool" where
  "isspace c \<longleftrightarrow> c \<in> set [CHR '' '', CHR 0x09, CHR 0x0A, CHR 0x0B, CHR 0x0C, CHR 0x0D]"

definition digit_value :: "char \<Rightarrow> int option" where
  "digit_value c =
     map_of [(CHR ''0'', 0), (CHR ''1'', 1), (CHR ''2'', 2), (CHR ''3'', 3), (CHR ''4'', 4),
             (CHR ''5'', 5), (CHR ''6'', 6), (CHR ''7'', 7), (CHR ''8'', 8), (CHR ''9'', 9)] c"

fun digits_prefix :: "int \<Rightarrow> string \<Rightarrow> int" where
  "digits_prefix acc [] = acc"
| "digits_prefix acc (c # cs) =
     (case digit_value c of
        None \<Rightarrow> acc
      | Some d \<Rightarrow> digits_prefix (acc * 10 + d) cs)"

text \<open>
  \<^verbatim>\<open>String::toInt\<close> is \<^verbatim>\<open>atol\<close>: leading white space, an optional sign, then the
  digits up to the first other character; 0 when there is no digit. The controller applies
  it to two-character substrings only, so the range of \<^verbatim>\<open>long\<close> is not reached.
\<close>

definition toInt :: "string \<Rightarrow> int" where
  "toInt s =
     (case dropWhile isspace s of
        [] \<Rightarrow> 0
      | c # cs \<Rightarrow>
          if c = CHR ''-'' then - digits_prefix 0 cs
          else if c = CHR ''+'' then digits_prefix 0 cs
          else digits_prefix 0 (c # cs))"

text \<open>
  \<^verbatim>\<open>String::substring(left, right)\<close>: the bounds are swapped when \<open>left > right\<close>, the
  result is empty when \<open>left\<close> is past the end, and \<open>right\<close> is cut to the length.
\<close>

definition substring :: "string \<Rightarrow> nat \<Rightarrow> nat \<Rightarrow> string" where
  "substring s left right =
     (let l = min left right; r = max left right
      in take (r - l) (drop l s))"

definition trim :: "string \<Rightarrow> string" where
  "trim s = rev (dropWhile isspace (rev (dropWhile isspace s)))"

definition tolower :: "char \<Rightarrow> char" where
  "tolower c =
     (case map_of (zip ''ABCDEFGHIJKLMNOPQRSTUVWXYZ'' ''abcdefghijklmnopqrstuvwxyz'') c of
        None \<Rightarrow> c
      | Some d \<Rightarrow> d)"

definition toLowerCase :: "string \<Rightarrow> string" where
  "toLowerCase s = map tolower s"

section \<open>Lane controller: message handlers\<close>

text \<open>
  \<^verbatim>\<open>mqtt_callback\<close> (lines 120 to 491) is a chain of tests on the topic; each branch is
  a function here, in the order of the source: vehicle count (lines 162 to 295), green
  status (296 to 324), green request (325 to 391), green permission (392 to 412), reset
  (413 to 434, with \<^verbatim>\<open>resetAllData\<close> at 694 to 724) and next lane ready (435 to 490).
\<close>

definition getNextSection :: "int \<Rightarrow> int" where
  "getNextSection current = (current smod 4) + 1"

definition setTrafficLight :: "bool \<Rightarrow> bool \<Rightarrow> bool \<Rightarrow> node \<Rightarrow> node" where
  "setTrafficLight r y g s =
     s\<lparr>light := \<lparr>red = r, yellow = y, green = g\<rparr>, trace := trace s @ [DigitalWrite r y g]\<rparr>"

definition allRed :: "node \<Rightarrow> node" where
  "allRed s = setTrafficLight True False False s"

definition publish :: "out_msg \<Rightarrow> node \<Rightarrow> node" where
  "publish m s = s\<lparr>trace := trace s @ [Publish m]\<rparr>"

definition resetAllData :: "node \<Rightarrow> node" where
  "resetAllData s =
     allRed (s\<lparr>vehicleCount := 0,
              lastReceivedData :=
                \<lparr>road_section_id = 0, total_vehicles = 0, timestamp = [], new_data = False,
                 duration_published = False, green_request_sent = False,
                 data_received_time = 0\<rparr>,
              currentGreenSection := 0,
              greenLightRequested := False,
              waitingForGreenPermission := False,
              nextExpectedSection := 1\<rparr>)"

text \<open>
  The age test of the vehicle-count handler: hour and minute are cut out of both
  timestamps (0 for a timestamp shorter than 16 characters), and a negative difference is
  taken to be a day rollover.
\<close>

definition timeDiffMinutes :: "string \<Rightarrow> string \<Rightarrow> int" where
  "timeDiffMinutes currentTs msgTimestamp =
     (let msgHour = (if length msgTimestamp \<ge> 16 then toInt (substring msgTimestamp 11 13) else 0);
          msgMin = (if length msgTimestamp \<ge> 16 then toInt (substring msgTimestamp 14 16) else 0);
          currentHour = (if length currentTs \<ge> 16 then toInt (substring currentTs 11 13) else 0);
          currentMin = (if length currentTs \<ge> 16 then toInt (substring currentTs 14 16) else 0);
          d = (currentHour * 60 + currentMin) - (msgHour * 60 + msgMin)
      in if d < 0 then d + 24 * 60 else d)"

definition doc_road_section_id :: "vehicle_count_doc \<Rightarrow> int" where
  "doc_road_section_id doc = (case vc_road_section_id doc of None \<Rightarrow> 0 | Some n \<Rightarrow> n)"

definition doc_total_vehicles :: "vehicle_count_doc \<Rightarrow> int" where
  "doc_total_vehicles doc =
     (case vc_total_vehicles doc of
        Some n \<Rightarrow> n
      | None \<Rightarrow> (case vc_vehicle_counts doc of None \<Rightarrow> 0 | Some xs \<Rightarrow> sum_list xs))"

definition doc_msgTimestamp :: "vehicle_count_doc \<Rightarrow> string" where
  "doc_msgTimestamp doc = (case vc_timestamp doc of None \<Rightarrow> [] | Some t \<Rightarrow> t)"

definition too_old :: "env \<Rightarrow> vehicle_count_doc \<Rightarrow> bool" where
  "too_old e doc \<longleftrightarrow>
     doc_msgTimestamp doc \<noteq> []
     \<and> timeDiffMinutes (currentTimestamp e) (doc_msgTimestamp doc) > 2"

definition isDuplicateData :: "node \<Rightarrow> vehicle_count_doc \<Rightarrow> bool" where
  "isDuplicateData s doc \<longleftrightarrow>
     total_vehicles (lastReceivedData s) = doc_total_vehicles doc
     \<and> road_section_id (lastReceivedData s) = doc_road_section_id doc
     \<and> timestamp (lastReceivedData s) = doc_msgTimestamp doc
     \<and> new_data (lastReceivedData s)"

definition store_vehicle_count :: "env \<Rightarrow> vehicle_count_doc \<Rightarrow> node \<Rightarrow> node" where
  "store_vehicle_count e doc s =
     s\<lparr>vehicleCount := real_of_int (doc_total_vehicles doc),
       lastReceivedData :=
         \<lparr>road_section_id = doc_road_section_id doc,
          total_vehicles = doc_total_vehicles doc,
          timestamp = (case vc_timestamp doc of Some t \<Rightarrow> t | None \<Rightarrow> currentTimestamp e),
          new_data = True,
          duration_published = False,
          green_request_sent = False,
          data_received_time = millis e\<rparr>\<rparr>"

definition on_vehicle_count :: "env \<Rightarrow> vehicle_count_doc option \<Rightarrow> node \<Rightarrow> node" where
  "on_vehicle_count e d s =
     (case d of
        None \<Rightarrow> s
      | Some doc \<Rightarrow>
          if doc_road_section_id doc \<noteq> ROAD_SECTION_ID then s
          else if too_old e doc then s
          else if isDuplicateData s doc then s
          else store_vehicle_count e doc s)"

definition on_green_status :: "green_status_doc option \<Rightarrow> node \<Rightarrow> node" where
  "on_green_status d s =
     (case d of
        None \<Rightarrow> s
      | Some doc \<Rightarrow>
          (case (gs_section doc, gs_status doc) of
             (Some section, Some status) \<Rightarrow>
               if status = ''green'' then s\<lparr>currentGreenSection := section\<rparr>
               else if status = ''red'' \<and> currentGreenSection s = section
               then s\<lparr>currentGreenSection := 0, nextExpectedSection := getNextSection section\<rparr>
               else s
           | _ \<Rightarrow> s))"

definition should_grant :: "node \<Rightarrow> int \<Rightarrow> bool" where
  "should_grant s requesting_section =
     (if new_data (lastReceivedData s) \<and> vehicleCount s > 0
         \<and> ROAD_SECTION_ID = nextExpectedSection s
      then False
      else requesting_section = nextExpectedSection s)"

definition on_green_request :: "green_request_doc option \<Rightarrow> node \<Rightarrow> node" where
  "on_green_request d s =
     (case d of
        None \<Rightarrow> s
      | Some doc \<Rightarrow>
          (case gr_section doc of
             None \<Rightarrow> s
           | Some requesting_section \<Rightarrow>
               if currentGreenSection s = 0
               then (if should_grant s requesting_section
                     then publish (GreenPermissionMsg requesting_section ROAD_SECTION_ID) s
                     else s)
               else s))"

definition on_green_permission :: "green_permission_doc option \<Rightarrow> node \<Rightarrow> node" where
  "on_green_permission d s =
     (case d of
        None \<Rightarrow> s
      | Some doc \<Rightarrow>
          (case (gp_section doc, gp_permission doc) of
             (Some permitted_section, Some permission) \<Rightarrow>
               if permitted_section = ROAD_SECTION_ID \<and> permission = ''granted''
               then s\<lparr>waitingForGreenPermission := False\<rparr>
               else s
           | _ \<Rightarrow> s))"

definition valid_reset_command :: "string \<Rightarrow> bool" where
  "valid_reset_command message \<longleftrightarrow>
     (let resetCommand = toLowerCase (trim message)
      in resetCommand = ''true'' \<or> resetCommand = ''1'' \<or> resetCommand = ''reset'')"

definition on_reset :: "string \<Rightarrow> node \<Rightarrow> node" where
  "on_reset message s = (if valid_reset_command message then resetAllData s else s)"

definition on_next_lane_ready :: "env \<Rightarrow> next_lane_doc option \<Rightarrow> node \<Rightarrow> node" where
  "on_next_lane_ready e d s =
     (case d of
        None \<Rightarrow> s
      | Some doc \<Rightarrow>
          (case nl_next_expected_section doc of
             None \<Rightarrow> s
           | Some nextExpected \<Rightarrow>
               let s1 = s\<lparr>nextExpectedSection := nextExpected\<rparr>
               in if ROAD_SECTION_ID = nextExpectedSection s1
                  then s1\<lparr>lastReceivedData :=
                            (lastReceivedData s1)\<lparr>new_data := True,
                               duration_published := False,
                               green_request_sent := False,
                               data_received_time := millis e\<rparr>,
                          vehicleCount := (if vehicleCount s1 < 0 then 0 else vehicleCount s1)\<rparr>
                  else s1))"

fun mqtt_callback :: "env \<Rightarrow> inbound \<Rightarrow> node \<Rightarrow> node" where
  "mqtt_callback e (CountdownSync payload) s = s"
| "mqtt_callback e (VehicleCount d) s = on_vehicle_count e d s"
| "mqtt_callback e (GreenStatus d) s = on_green_status d s"
| "mqtt_callback e (GreenRequest d) s = on_green_request d s"
| "mqtt_callback e (GreenPermission d) s = on_green_permission d s"
| "mqtt_callback e (ResetCmd message) s = on_reset message s"
| "mqtt_callback e (NextLaneReady d) s = on_next_lane_ready e d s"
| "mqtt_callback e (OtherTopic topic payload) s = s"

text \<open>
  One call of \<^verbatim>\<open>mqtt_client.loop()\<close> reads at most one packet, so it hands at most one
  message to the callback: \<open>None\<close> when nothing has arrived, otherwise the message with
  the clock readings of its moment.
\<close>

definition deliver :: "(env \<times> inbound) option \<Rightarrow> node \<Rightarrow> node" where
  "deliver msg s = (case msg of None \<Rightarrow> s | Some (e, m) \<Rightarrow> mqtt_callback e m s)"

section \<open>Lane controller: the main loop\<close>

text \<open>
  \<^verbatim>\<open>loop()\<close> is at lines 891 to 1171, \<^verbatim>\<open>countdownTimer\<close> at 824 to 843,
  \<^verbatim>\<open>publish_duration\<close> at 845 to 889, \<^verbatim>\<open>request_green_permission\<close> at 775 to 793.
  What one call of \<^verbatim>\<open>loop()\<close> receives from outside: the message handed over by
  the first \<^verbatim>\<open>mqtt_client.loop()\<close>; the hour from \<^verbatim>\<open>getLocalTime\<close> (\<open>None\<close> when it
  fails); the clock readings before and after the countdown; whether the first publish of
  the duration succeeds; the message of each round of the wait for permission, one list
  entry for every round that starts before the 5000 ms have passed; and, for each second
  \<open>i\<close> of the countdown, the clock reading and the message of that second.
\<close>

record tick =
  tick_env :: env
  tick_inbox :: "(env \<times> inbound) option"

record loop_env =
  le_inbox :: "(env \<times> inbound) option"
  le_hour :: "int option"
  le_env :: env
  le_env_end :: env
  le_publish_ok :: bool
  le_polls :: "(env \<times> inbound) option list"
  le_ticks :: "nat \<Rightarrow> tick"

definition publish_green_status :: "env \<Rightarrow> string \<Rightarrow> node \<Rightarrow> node" where
  "publish_green_status e status s =
     publish (GreenStatusMsg ROAD_SECTION_ID status (currentTimestamp e)) s"

definition request_green_permission :: "env \<Rightarrow> node \<Rightarrow> node" where
  "request_green_permission e s =
     (publish (GreenRequestMsg ROAD_SECTION_ID (currentTimestamp e)
                 (data_received_time (lastReceivedData s))) s)
       \<lparr>greenLightRequested := True, waitingForGreenPermission := True\<rparr>"

definition publish_countdown_sync :: "env \<Rightarrow> int \<Rightarrow> string \<Rightarrow> node \<Rightarrow> node" where
  "publish_countdown_sync e remaining_seconds phase s =
     publish (CountdownSyncMsg LANE_ID remaining_seconds phase (millis e div 1000)) s"

text \<open>The body of the countdown's \<^verbatim>\<open>for\<close> loop runs for \<open>i = seconds, \<dots>, 1\<close>.\<close>

fun countdown_from :: "nat \<Rightarrow> (nat \<Rightarrow> tick) \<Rightarrow> node \<Rightarrow> node" where
  "countdown_from 0 ticks s = s"
| "countdown_from (Suc n) ticks s =
     (let i = Suc n;
          s1 = (if i mod 2 = 0 \<or> i \<le> 3
                then publish_countdown_sync (tick_env (ticks i)) (int i) ''green'' s
                else s);
          s2 = deliver (tick_inbox (ticks i)) s1
      in countdown_from n ticks s2)"

definition countdownTimer :: "int \<Rightarrow> (nat \<Rightarrow> tick) \<Rightarrow> node \<Rightarrow> node" where
  "countdownTimer seconds ticks s = countdown_from (nat seconds) ticks s"

text \<open>The conversion \<^verbatim>\<open>(int)duration\<close> drops the fraction.\<close>

definition int_of_float :: "real \<Rightarrow> int" where
  "int_of_float d = (if d \<ge> 0 then \<lfloor>d\<rfloor> else \<lceil>d\<rceil>)"

text \<open>
  The first publish of the duration is repeated once when it fails; every call of
  \<^verbatim>\<open>mqtt_client.publish\<close> is recorded.
\<close>

definition publish_duration :: "bool \<Rightarrow> real \<Rightarrow> node \<Rightarrow> node" where
  "publish_duration ok duration s =
     (let m = DurationMsg (road_section_id (lastReceivedData s))
                (total_vehicles (lastReceivedData s)) duration
                (timestamp (lastReceivedData s))
      in if ok then publish m s else publish m (publish m s))"

definition clear_data_flags :: "node \<Rightarrow> node" where
  "clear_data_flags s =
     s\<lparr>lastReceivedData :=
         (lastReceivedData s)\<lparr>new_data := False, duration_published := False,
            green_request_sent := False\<rparr>\<rparr>"

text \<open>
  The wait for permission: a round hands over its message while the flag is still set;
  the list ends where the 5000 ms are over.
\<close>

fun wait_for_permission :: "(env \<times> inbound) option list \<Rightarrow> node \<Rightarrow> node" where
  "wait_for_permission [] s = s"
| "wait_for_permission (b # bs) s =
     (if waitingForGreenPermission s then wait_for_permission bs (deliver b s) else s)"

text \<open>
  The light sequence from red over yellow to green, the countdown, and back. The source
  has this text twice, in the branch with vehicles and in the branch with none.
\<close>

definition traffic_light_sequence :: "loop_env \<Rightarrow> real \<Rightarrow> node \<Rightarrow> node" where
  "traffic_light_sequence e duration s0 =
     (let s = setTrafficLight True False False s0;
          s = setTrafficLight False True False s;
          s = setTrafficLight False False True s;
          s = publish_green_status (le_env e) ''green'' s;
          s = countdownTimer (int_of_float duration) (le_ticks e) s;
          s = setTrafficLight False True False s;
          s = s\<lparr>nextExpectedSection := getNextSection ROAD_SECTION_ID\<rparr>;
          s = publish (NextLaneReadyMsg (nextExpectedSection s) LANE_ID) s;
          s = setTrafficLight True False False s;
          s = publish_green_status (le_env_end e) ''red'' s;
          s = s\<lparr>currentGreenSection := 0\<rparr>
      in clear_data_flags s)"

definition request_and_wait :: "loop_env \<Rightarrow> node \<Rightarrow> node" where
  "request_and_wait e s0 =
     (let s = s0\<lparr>currentGreenSection := ROAD_SECTION_ID\<rparr>;
          s = request_green_permission (le_env e) s;
          s = s\<lparr>lastReceivedData := (lastReceivedData s)\<lparr>green_request_sent := True\<rparr>\<rparr>
      in wait_for_permission (le_polls e) s)"

definition apply_data_timeout :: "loop_env \<Rightarrow> node \<Rightarrow> node" where
  "apply_data_timeout e s =
     (let dataAge = millis (le_env e) - data_received_time (lastReceivedData s)
      in if dataAge > 120000 then clear_data_flags s else s)"

definition publish_duration_once :: "loop_env \<Rightarrow> real \<Rightarrow> node \<Rightarrow> node" where
  "publish_duration_once e duration s =
     (if \<not> duration_published (lastReceivedData s)
      then (let s1 = publish_duration (le_publish_ok e) duration s
            in s1\<lparr>lastReceivedData := (lastReceivedData s1)\<lparr>duration_published := True\<rparr>\<rparr>)
      else s)"

text \<open>
  The body of \<^verbatim>\<open>loop()\<close> once the hour is known: the data timeout, the duration,
  and the chain of tests that ends in a request, a wait, the sequence without request
  when there is no vehicle, or the clearing of the flags.
\<close>

definition loop_decide :: "loop_env \<Rightarrow> bool \<Rightarrow> node \<Rightarrow> node" where
  "loop_decide e jamSibuk s0 =
     (let s = apply_data_timeout e s0
      in if new_data (lastReceivedData s)
         then
           let duration = defuzzify (vehicleCount s) jamSibuk;
               s = publish_duration_once e duration s
           in if vehicleCount s > 0 \<and> currentGreenSection s = 0
                 \<and> ROAD_SECTION_ID = nextExpectedSection s
                 \<and> \<not> green_request_sent (lastReceivedData s)
              then
                let s = request_and_wait e s
                in if waitingForGreenPermission s
                   then s\<lparr>waitingForGreenPermission := False, currentGreenSection := 0\<rparr>
                   else if currentGreenSection s \<noteq> ROAD_SECTION_ID then s
                   else traffic_light_sequence e duration s
              else if vehicleCount s > 0 \<and> currentGreenSection s \<noteq> 0 then s
              else if vehicleCount s > 0 \<and> ROAD_SECTION_ID \<noteq> nextExpectedSection s then s
              else if vehicleCount s = 0 \<and> currentGreenSection s = 0
                      \<and> ROAD_SECTION_ID = nextExpectedSection s
                      \<and> \<not> green_request_sent (lastReceivedData s)
              then
                traffic_light_sequence e duration
                  (s\<lparr>currentGreenSection := ROAD_SECTION_ID,
                     lastReceivedData := (lastReceivedData s)\<lparr>green_request_sent := True\<rparr>\<rparr>)
              else clear_data_flags s
         else allRed s)"

definition loop :: "loop_env \<Rightarrow> node \<Rightarrow> node" where
  "loop e s0 =
     (let s = deliver (le_inbox e) s0
      in case le_hour e of
           None \<Rightarrow> s
         | Some currentHour \<Rightarrow> loop_decide e (isJamSibuk currentHour) s)"

text \<open>The globals as initialised, and the light red as \<^verbatim>\<open>setup()\<close> leaves it.\<close>

definition init_node :: node where
  "init_node =
     \<lparr>vehicleCount = 0,
      lastReceivedData =
        \<lparr>road_section_id = 0, total_vehicles = 0, timestamp = [], new_data = False,
         duration_published = False, green_request_sent = False, data_received_time = 0\<rparr>,
      currentGreenSection = 0,
      greenLightRequested = False,
      waitingForGreenPermission = False,
      nextExpectedSection = 1,
      light = \<lparr>red = True, yellow = False, green = False\<rparr>,
      trace = []\<rparr>"

section \<open>The controller of lane 1 (esp1\_lane1.cpp): message handler\<close>

text \<open>
  This controller keeps no expected next lane and knows four topics only. Its callback
  (lines 106 to 255) reads no clock.
\<close>

definition ROAD_SECTION_ID_lane1 :: int where
  "ROAD_SECTION_ID_lane1 = 1"

record MqttData_lane1 =
  road_section_id_l1 :: int
  total_vehicles_l1 :: int
  timestamp_l1 :: string
  new_data_l1 :: bool

record node_lane1 =
  vehicleCount_l1 :: real
  lastReceivedData_l1 :: MqttData_lane1
  currentGreenSection_l1 :: int
  greenLightRequested_l1 :: bool
  waitingForGreenPermission_l1 :: bool
  light_l1 :: TrafficLight
  trace_l1 :: "event list"

definition publish_lane1 :: "out_msg \<Rightarrow> node_lane1 \<Rightarrow> node_lane1" where
  "publish_lane1 m s = s\<lparr>trace_l1 := trace_l1 s @ [Publish m]\<rparr>"

fun mqtt_callback_lane1 :: "inbound \<Rightarrow> node_lane1 \<Rightarrow> node_lane1" where
  "mqtt_callback_lane1 (VehicleCount d) s =
     (case d of
        None \<Rightarrow> s
      | Some doc \<Rightarrow>
          if doc_road_section_id doc \<noteq> ROAD_SECTION_ID_lane1 then s
          else s\<lparr>vehicleCount_l1 := real_of_int (doc_total_vehicles doc),
                 lastReceivedData_l1 :=
                   \<lparr>road_section_id_l1 = doc_road_section_id doc,
                    total_vehicles_l1 = doc_total_vehicles doc,
                    timestamp_l1 =
                      (case vc_timestamp doc of Some t \<Rightarrow> t | None \<Rightarrow> ''2025-04-22 10:58:50''),
                    new_data_l1 = True\<rparr>\<rparr>)"
| "mqtt_callback_lane1 (GreenStatus d) s =
     (case d of
        None \<Rightarrow> s
      | Some doc \<Rightarrow>
          (case (gs_section doc, gs_status doc) of
             (Some section, Some status) \<Rightarrow>
               if status = ''green'' then s\<lparr>currentGreenSection_l1 := section\<rparr>
               else if status = ''red'' \<and> currentGreenSection_l1 s = section
               then s\<lparr>currentGreenSection_l1 := 0\<rparr>
               else s
           | _ \<Rightarrow> s))"
| "mqtt_callback_lane1 (GreenRequest d) s =
     (case d of
        None \<Rightarrow> s
      | Some doc \<Rightarrow>
          (case gr_section doc of
             None \<Rightarrow> s
           | Some requesting_section \<Rightarrow>
               if currentGreenSection_l1 s = 0
               then publish_lane1 (GreenPermissionMsg requesting_section ROAD_SECTION_ID_lane1) s
               else s))"
| "mqtt_callback_lane1 (GreenPermission d) s =
     (case d of
        None \<Rightarrow> s
      | Some doc \<Rightarrow>
          (case (gp_section doc, gp_permission doc) of
             (Some permitted_section, Some permission) \<Rightarrow>
               if permitted_section = ROAD_SECTION_ID_lane1 \<and> permission = ''granted''
               then s\<lparr>waitingForGreenPermission_l1 := False\<rparr>
               else s
           | _ \<Rightarrow> s))"
| "mqtt_callback_lane1 m s = s"

definition init_node_lane1 :: node_lane1 where
  "init_node_lane1 =
     \<lparr>vehicleCount_l1 = 0,
      lastReceivedData_l1 =
        \<lparr>road_section_id_l1 = 0, total_vehicles_l1 = 0, timestamp_l1 = [], new_data_l1 = False\<rparr>,
      currentGreenSection_l1 = 0,
      greenLightRequested_l1 = False,
      waitingForGreenPermission_l1 = False,
      light_l1 = \<lparr>red = True, yellow = False, green = False\<rparr>,
      trace_l1 = []\<rparr>"

section \<open>Notions used to state the properties\<close>




definition sets_next :: "inbound \<Rightarrow> bool" where
  "sets_next m =
     (case m of
        GreenStatus (Some doc) \<Rightarrow> gs_section doc \<noteq> None \<and> gs_status doc = Some ''red''
      | NextLaneReady (Some doc) \<Rightarrow> nl_next_expected_section doc \<noteq> None
      | ResetCmd message \<Rightarrow> valid_reset_command message
      | _ \<Rightarrow> False)"

definition keeps_next :: "(env \<times> inbound) option \<Rightarrow> bool" where
  "keeps_next msg = (case msg of None \<Rightarrow> True | Some (e, m) \<Rightarrow> \<not> sets_next m)"

fun green_event :: "event \<Rightarrow> bool" where
  "green_event (DigitalWrite r y g) = g"
| "green_event (Publish (GreenStatusMsg section status ts)) = (status = ''green'')"
| "green_event (Publish m) = False"


text \<open>
  Since state \<open>s\<close>, the outputs of \<open>s'\<close> have only grown, and by no event that turns the
  green lamp on or publishes the status green.
\<close>

definition no_green_since :: "node \<Rightarrow> node \<Rightarrow> bool" where
  "no_green_since s s' \<longleftrightarrow>
     take (length (trace s)) (trace s') = trace s
     \<and> list_all (\<lambda>ev. \<not> green_event ev) (drop (length (trace s)) (trace s'))"




text \<open>
  At a whole vehicle count: the three membership degrees, added in \<^verbatim>\<open>float\<close>, give
  exactly 1 (lane controller, simulation), and the duration computed in \<^verbatim>\<open>float\<close> is
  the duration computed without rounding.
\<close>

definition lane_sum_is_one :: "int \<Rightarrow> bool" where
  "lane_sum_is_one n \<longleftrightarrow>
     float_sum3 (sedikit_float (of_int n)) (sedang_float (of_int n)) (padat_float (of_int n))
       = 1"

definition sim_sum_is_one :: "int \<Rightarrow> bool" where
  "sim_sum_is_one n \<longleftrightarrow>
     float_sum3 (sedikit_sim (of_int n)) (sedang_sim (of_int n)) (padat_sim (of_int n)) = 1"

definition defuzzify_float_is_exact :: "int \<Rightarrow> bool" where
  "defuzzify_float_is_exact n \<longleftrightarrow>
     defuzzify_float (of_int n) True = defuzzify (of_int n) True
     \<and> defuzzify_float (of_int n) False = defuzzify (of_int n) False"

text \<open>
  The number of days from 1970-01-01 to a date of the Gregorian calendar, and with it the
  seconds from 1970-01-01 00:00:00 to a timestamp written as \<^verbatim>\<open>YYYY-MM-DD HH:MM:SS\<close>.
\<close>

definition days_from_civil :: "int \<Rightarrow> int \<Rightarrow> int \<Rightarrow> int" where
  "days_from_civil y m d =
     (let y' = (if m \<le> 2 then y - 1 else y);
          era = y' div 400;
          yoe = y' - era * 400;
          doy = (153 * ((m + 9) mod 12) + 2) div 5 + d - 1;
          doe = yoe * 365 + yoe div 4 - yoe div 100 + doy
      in era * 146097 + doe - 719468)"

definition spec_epoch_seconds :: "string \<Rightarrow> int" where
  "spec_epoch_seconds ts =
     days_from_civil (toInt (substring ts 0 4)) (toInt (substring ts 5 7))
         (toInt (substring ts 8 10)) * 86400
       + toInt (substring ts 11 13) * 3600 + toInt (substring ts 14 16) * 60
       + toInt (substring ts 17 19)"

definition spec_age_seconds :: "string \<Rightarrow> string \<Rightarrow> int" where
  "spec_age_seconds now ts = spec_epoch_seconds now - spec_epoch_seconds ts"

text \<open>A timestamp in the format of \<^verbatim>\<open>strftime\<close>, from a ten-character date and three numbers.\<close>

definition digit_char :: "nat \<Rightarrow> char" where
  "digit_char n = ''0123456789'' ! (n mod 10)"

definition two_digits :: "nat \<Rightarrow> string" where
  "two_digits n = [digit_char (n div 10), digit_char n]"

definition stamp :: "string \<Rightarrow> nat \<Rightarrow> nat \<Rightarrow> nat \<Rightarrow> string" where
  "stamp date h m sec =
     date @ '' '' @ two_digits h @ '':'' @ two_digits m @ '':'' @ two_digits sec"

section \<open>Concrete runs\<close>

text \<open>Inputs of the runs that the witnesses and counterexamples below evaluate.\<close>

definition at_10_00_30 :: env where
  "at_10_00_30 = \<lparr>currentTimestamp = ''2025-04-22 10:00:30'', millis = 1000\<rparr>"

definition at_10_02_59 :: env where
  "at_10_02_59 = \<lparr>currentTimestamp = ''2025-04-22 10:02:59'', millis = 150000\<rparr>"

definition at_10_05_00 :: env where
  "at_10_05_00 = \<lparr>currentTimestamp = ''2025-04-22 10:05:00'', millis = 271000\<rparr>"

definition quiet_tick :: tick where
  "quiet_tick = \<lparr>tick_env = at_10_00_30, tick_inbox = None\<rparr>"

text \<open>A call of the loop at ten o'clock during which no message arrives.\<close>

definition quiet_loop :: loop_env where
  "quiet_loop =
     \<lparr>le_inbox = None, le_hour = Some 10, le_env = at_10_00_30, le_env_end = at_10_00_30,
      le_publish_ok = True, le_polls = [], le_ticks = (\<lambda>i. quiet_tick)\<rparr>"

definition next_lane_3 :: inbound where
  "next_lane_3 =
     NextLaneReady (Some \<lparr>nl_next_expected_section = Some 3, nl_from_lane = Some 2\<rparr>)"

definition next_lane_7 :: inbound where
  "next_lane_7 =
     NextLaneReady (Some \<lparr>nl_next_expected_section = Some 7, nl_from_lane = Some 2\<rparr>)"

definition observation :: "int \<Rightarrow> string \<Rightarrow> vehicle_count_doc" where
  "observation n ts =
     \<lparr>vc_road_section_id = Some 3, vc_total_vehicles = Some n, vc_vehicle_counts = None,
      vc_timestamp = Some ts\<rparr>"

definition request_from :: "int \<Rightarrow> green_request_doc" where
  "request_from section = \<lparr>gr_section = Some section, gr_data_received_time = None\<rparr>"

definition grant_for_3 :: inbound where
  "grant_for_3 =
     GreenPermission (Some \<lparr>gp_section = Some 3, gp_permission = Some ''granted''\<rparr>)"

text \<open>Lane 3 has been told that it is next, and holds an observation of two vehicles.\<close>

definition turn_3_two_vehicles :: node where
  "turn_3_two_vehicles =
     mqtt_callback at_10_00_30
       (VehicleCount (Some (observation 2 ''2025-04-22 10:00:00'')))
       (mqtt_callback at_10_00_30 next_lane_3 init_node)"

text \<open>The loop's wait sees the grant; a reset command arrives in second 10 of the countdown.\<close>

definition granted_then_reset :: loop_env where
  "granted_then_reset =
     quiet_loop\<lparr>le_polls := [Some (at_10_00_30, grant_for_3)],
       le_ticks := (\<lambda>i. if i = 10
                          then \<lparr>tick_env = at_10_00_30,
                                tick_inbox = Some (at_10_00_30, ResetCmd ''reset'')\<rparr>
                          else quiet_tick)\<rparr>"

text \<open>The loop's wait sees one request of lane 2 and nothing else.\<close>

definition no_grant_loop :: loop_env where
  "no_grant_loop =
     quiet_loop\<lparr>le_polls := [Some (at_10_00_30, GreenRequest (Some (request_from 2))), None]\<rparr>"

text \<open>An observation of an empty lane, and one that carries no timestamp.\<close>

definition empty_lane_observation :: inbound where
  "empty_lane_observation = VehicleCount (Some (observation 0 ''2025-04-22 10:00:00''))"

definition unstamped_observation :: inbound where
  "unstamped_observation =
     VehicleCount (Some \<lparr>vc_road_section_id = Some 3, vc_total_vehicles = Some 5,
       vc_vehicle_counts = None, vc_timestamp = None\<rparr>)"

text \<open>The document of the observation without timestamp.\<close>

definition unstamped_doc :: vehicle_count_doc where
  "unstamped_doc =
     \<lparr>vc_road_section_id = Some 3, vc_total_vehicles = Some 5,
      vc_vehicle_counts = None, vc_timestamp = None\<rparr>"


text \<open>The count 12.7 as the type \<^verbatim>\<open>float\<close> holds it.\<close>

definition count_12_7 :: real where
  "count_12_7 = to_float (127 / 10)"

section \<open>Properties of the fuzzy engine\<close>

lemma membership_sum: "sedikit x + sedang x + padat x = 1"
  by (simp add: sedikit_def sedang_def padat_def field_simps)

lemma membership_sum_sim_exact:
  "sedikit_sim_exact x + sedang_sim_exact x + padat_sim_exact x = 1"
  by (simp add: sedikit_sim_exact_def sedang_sim_exact_def padat_sim_exact_def field_simps)

lemma membership_nonneg: "0 \<le> sedikit x \<and> 0 \<le> sedang x \<and> 0 \<le> padat x"
  by (simp add: sedikit_def sedang_def padat_def)

lemma defuzzify_body_centroid:
  "defuzzify_body a b c r =
     (if sum_list [a, b, c] = 0 then fallbackDuration r
      else weighted_centroid [a, b, c] (baseDurations r))"
  by (simp add: defuzzify_body_def weighted_centroid_def baseDurations_def
      fallbackDuration_def Let_def add.assoc)

text \<open>
  Claim C4. For every vehicle count and rush-hour flag, \<open>defuzzify\<close> returns the weighted
  centroid of the three base durations under the three membership degrees (low, medium,
  high); each base duration is strictly larger in the rush hour; and the fixed,
  rush-dependent fallback (30 or 20) is what is returned exactly when the memberships sum
  to zero. The second conjunct states the same for the part of \<open>defuzzify\<close> that works on
  arbitrary membership degrees, where the zero case can be reached.
\<close>

theorem defuzzify_weighted_centroid:
  "defuzzify kendaraan jamSibuk =
     (if sum_list [sedikit kendaraan, sedang kendaraan, padat kendaraan] = 0
      then fallbackDuration jamSibuk
      else weighted_centroid [sedikit kendaraan, sedang kendaraan, padat kendaraan]
             (baseDurations jamSibuk))
   \<and> defuzzify_body a b c jamSibuk =
     (if sum_list [a, b, c] = 0 then fallbackDuration jamSibuk
      else weighted_centroid [a, b, c] (baseDurations jamSibuk))
   \<and> list_all2 (<) (baseDurations False) (baseDurations True)
   \<and> fallbackDuration True = 30 \<and> fallbackDuration False = 20"
proof -
  have "defuzzify kendaraan jamSibuk =
     (if sum_list [sedikit kendaraan, sedang kendaraan, padat kendaraan] = 0
      then fallbackDuration jamSibuk
      else weighted_centroid [sedikit kendaraan, sedang kendaraan, padat kendaraan]
             (baseDurations jamSibuk))"
    unfolding defuzzify_def by (rule defuzzify_body_centroid)
  moreover have "list_all2 (<) (baseDurations False) (baseDurations True)"
    by (simp add: baseDurations_def)
  moreover have "fallbackDuration True = 30 \<and> fallbackDuration False = 20"
    by (simp add: fallbackDuration_def)
  ultimately show ?thesis
    using defuzzify_body_centroid [of a b c jamSibuk] by blast
qed

text \<open>
  At count 4 in the rush hour the low and the medium membership are both one half, and the
  duration is 22.5; membership degrees that are all 0 give the fallback, 30 or 20.
\<close>

theorem defuzzify_weighted_centroid_witness:
  "defuzzify 4 True = 45 / 2 \<and> defuzzify_body 0 0 0 True = 30
   \<and> defuzzify_body 0 0 0 False = 20 \<and> defuzzify_body 1 1 0 False = 15"
  using defuzzify_weighted_centroid [of 4 True 0 0 0]
    defuzzify_weighted_centroid [of 4 False 0 0 0]
    defuzzify_weighted_centroid [of 4 False 1 1 0]
  by (simp add: weighted_centroid_def baseDurations_def fallbackDuration_def
      sedikit_def sedang_def padat_def)

text \<open>
  Claim C9, as the code has it. At vehicle count 0 the low membership is 1 and the other
  two are 0, so the zero-sum fallback is not taken: \<open>defuzzify 0\<close> is the short base
  duration, 15 in the rush hour and 10 otherwise.
\<close>

theorem defuzzify_zero_count:
  "sedikit 0 = 1 \<and> sedang 0 = 0 \<and> padat 0 = 0
   \<and> defuzzify 0 True = 15 \<and> defuzzify 0 False = 10"
  by (simp add: defuzzify_def defuzzify_body_def sedikit_def sedang_def padat_def)

text \<open>
  Claim C9, as stated, fails: at count 0 the memberships are not all zero, and the
  returned duration is neither 30 (rush hour) nor 20 (otherwise).
\<close>

theorem defuzzify_zero_count_counterexample:
  "\<not> (sedikit 0 = 0 \<and> sedang 0 = 0 \<and> padat 0 = 0)
   \<and> defuzzify 0 True \<noteq> 30 \<and> defuzzify 0 False \<noteq> 20"
  by (simp add: defuzzify_def defuzzify_body_def sedikit_def sedang_def padat_def)

subsection \<open>Rounding\<close>

lemma bit_length_bounds:
  "n > 0 \<Longrightarrow> 2 ^ (bit_length n - 1) \<le> n \<and> n < 2 ^ bit_length n"
proof (induction n rule: bit_length.induct)
  case (1 n)
  show ?case
  proof (cases "n div 2 = 0")
    case True
    with "1.prems" have "n = 1" by (simp add: div_eq_0_iff) 
    then show ?thesis by (simp add: bit_length.simps [of "Suc 0"] bit_length.simps [of 0])
  next
    case False
    then have pos: "n div 2 > 0" by simp
    from "1.IH" [OF _ pos] "1.prems"
    have ih: "2 ^ (bit_length (n div 2) - 1) \<le> n div 2 \<and> n div 2 < 2 ^ bit_length (n div 2)"
      by simp
    have bl: "bit_length n = Suc (bit_length (n div 2))"
      using "1.prems" by (simp add: bit_length.simps [of n])
    have "bit_length (n div 2) > 0"
      using pos by (simp add: bit_length.simps [of "n div 2"])
    then obtain k where k: "bit_length (n div 2) = Suc k" by (cases "bit_length (n div 2)") auto
    from ih have "2 * 2 ^ k \<le> n" "n < 2 * 2 ^ Suc k"
      unfolding k by auto
    then show ?thesis by (simp add: bl k)
  qed
qed

lemma bit_length_pos: "n > 0 \<Longrightarrow> bit_length n > 0"
  by (simp add: bit_length.simps [of n])

lemma pow2_pos: "pow2 e > 0"
  by (simp add: pow2_def)

lemma pow2_mono:
  assumes "a \<le> b"
  shows "pow2 a \<le> pow2 b"
proof -
  consider "0 \<le> a" | "a < 0 \<and> 0 \<le> b" | "b < 0" by linarith
  then show ?thesis
  proof cases
    case 1
    then have "nat a \<le> nat b" and "0 \<le> b" using assms by auto
    then show ?thesis using 1 by (simp add: pow2_def power_increasing)
  next
    case 2
    have "1 / 2 ^ nat (- a) \<le> (1::real)" by simp
    also have "\<dots> \<le> 2 ^ nat b" by simp
    finally show ?thesis using 2 by (simp add: pow2_def)
  next
    case 3
    then have le: "nat (- b) \<le> nat (- a)" and neg: "a < 0" using assms by auto
    have "(2::real) ^ nat (- b) \<le> 2 ^ nat (- a)"
      by (rule power_increasing [OF le]) simp
    then have "1 / 2 ^ nat (- a) \<le> (1::real) / 2 ^ nat (- b)"
      by (simp add: field_simps)
    then show ?thesis using 3 neg by (simp add: pow2_def)
  qed
qed

lemma exponent2_lower:
  assumes "x > 0"
  shows "pow2 (exponent2 x) \<le> x"
proof (cases "x \<ge> 1")
  case True
  define n where "n = nat \<lfloor>x\<rfloor>"
  have n: "n > 0" using True by (simp add: n_def)
  have e: "exponent2 x = int (bit_length n) - 1"
    using True assms by (simp add: exponent2_def n_def)
  have "bit_length n > 0" by (rule bit_length_pos [OF n])
  then have "pow2 (exponent2 x) = 2 ^ (bit_length n - 1)"
    by (simp add: e pow2_def nat_diff_distrib of_nat_diff)
  also have "\<dots> \<le> real n"
    using bit_length_bounds [OF n] by (metis of_nat_le_iff of_nat_numeral of_nat_power)
  also have "\<dots> \<le> x"
    using True by (simp add: n_def)
  finally show ?thesis .
next
  case False
  then have x1: "x < 1" by simp
  define n where "n = nat \<lfloor>1 / x\<rfloor>"
  have "1 / x > 1" using assms x1 by simp
  then have n: "n > 0" by (simp add: n_def)
  define k where "k = bit_length n - 1"
  have bl: "bit_length n = Suc k"
    using bit_length_pos [OF n] by (simp add: k_def)
  have ik: "int (bit_length n) - 1 = int k" by (simp add: bl)
  show ?thesis
  proof (cases "x * 2 ^ k = 1")
    case True
    then have e: "exponent2 x = - int k"
      using x1 assms by (simp add: exponent2_def n_def [symmetric] ik Let_def)
    from True have "x = 1 / 2 ^ k" by (simp add: field_simps)
    moreover have "pow2 (exponent2 x) = 1 / 2 ^ k"
      unfolding e by (cases "k = 0") (simp_all add: pow2_def)
    ultimately show ?thesis by simp
  next
    case F: False
    then have e: "exponent2 x = - int k - 1"
      using x1 assms by (simp add: exponent2_def n_def [symmetric] ik Let_def)
    have "n < 2 ^ Suc k"
      using bit_length_bounds [OF n] by (simp add: bl)
    then have "n + 1 \<le> 2 ^ Suc k" by simp
    then have "real (n + 1) \<le> 2 ^ Suc k"
      by (metis of_nat_le_iff of_nat_numeral of_nat_power)
    moreover have "1 / x < real n + 1"
    proof -
      have "0 \<le> \<lfloor>1 / x\<rfloor>" using \<open>1 / x > 1\<close> assms by simp
      then have "real n = of_int \<lfloor>1 / x\<rfloor>"
        unfolding n_def by simp
      then show ?thesis by linarith
    qed
    ultimately have "1 / x \<le> 2 ^ Suc k" by simp
    then have "1 / 2 ^ Suc k \<le> x"
      using assms by (simp add: field_simps)
    moreover have "pow2 (exponent2 x) = 1 / 2 ^ Suc k"
      by (simp add: e pow2_def nat_add_distrib)
    ultimately show ?thesis by simp
  qed
qed

lemma round_ties_even_ge_floor: "\<lfloor>r\<rfloor> \<le> round_ties_even r"
  by (simp add: round_ties_even_def Let_def)

lemma round_binary_pos:
  assumes "x > 0" and "p > 0"
  shows "round_binary p x > 0"
proof -
  define q where "q = pow2 (exponent2 x - int p + 1)"
  have q: "q > 0" by (simp add: q_def pow2_pos)
  have "q \<le> pow2 (exponent2 x)"
    unfolding q_def using assms(2) by (intro pow2_mono) simp
  also have "\<dots> \<le> x" by (rule exponent2_lower [OF assms(1)])
  finally have "1 \<le> x / q" using q by (simp add: field_simps)
  then have "1 \<le> \<lfloor>x / q\<rfloor>" by simp
  then have "1 \<le> round_ties_even (x / q)"
    using round_ties_even_ge_floor [of "x / q"] by linarith
  then have "0 < real_of_int (round_ties_even (x / q)) * q"
    using q by simp
  then show ?thesis
    using assms(1) by (simp add: round_binary_def q_def Let_def)
qed

lemma round_binary_nonneg: "x \<ge> 0 \<Longrightarrow> p > 0 \<Longrightarrow> round_binary p x \<ge> 0"
  using round_binary_pos [of x p] by (cases "x = 0") (simp_all add: round_binary_def less_eq_real_def)

lemma to_float_pos: "x > 0 \<Longrightarrow> to_float x > 0"
  by (simp add: to_float_def round_binary_pos)

lemma to_float_nonneg: "x \<ge> 0 \<Longrightarrow> to_float x \<ge> 0"
  by (simp add: to_float_def round_binary_nonneg)

lemma to_double_pos: "x > 0 \<Longrightarrow> to_double x > 0"
  by (simp add: to_double_def round_binary_pos)

lemma quotient_float_pos:
  "a > 0 \<Longrightarrow> c > 0 \<Longrightarrow> to_float (to_double (to_float a / c)) > 0"
  by (intro to_float_pos to_double_pos divide_pos_pos)

lemma float_sum3_pos:
  assumes "a \<ge> 0" "b \<ge> 0" "c \<ge> 0" "a > 0 \<or> b > 0 \<or> c > 0"
  shows "float_sum3 a b c > 0"
proof (cases "a + b > 0")
  case True
  then have "to_float (a + b) + c > 0"
    using to_float_pos [OF True] assms(3) by simp
  then show ?thesis by (simp add: float_sum3_def to_float_pos)
next
  case False
  with assms have ab: "a + b = 0" and c: "c > 0" by auto
  have "to_float (a + b) = 0" by (simp add: ab to_float_def round_binary_def)
  then show ?thesis using c by (simp add: float_sum3_def to_float_pos)
qed

lemma membership_float_nonneg:
  "0 \<le> sedikit_float x \<and> 0 \<le> sedang_float x \<and> 0 \<le> padat_float x"
  by (simp add: sedikit_float_def sedang_float_def padat_float_def less_imp_le quotient_float_pos)

lemma membership_float_some_pos:
  "0 < sedikit_float x \<or> 0 < sedang_float x \<or> 0 < padat_float x"
proof -
  consider "x \<le> 3" | "3 < x \<and> x \<le> 5" | "5 < x \<and> x < 10" | "10 \<le> x" by linarith
  then show ?thesis
  proof cases
    case 1
    then show ?thesis by (simp add: sedikit_float_def)
  next
    case 2
    then show ?thesis by (simp add: sedang_float_def quotient_float_pos)
  next
    case 3
    then show ?thesis by (simp add: sedang_float_def quotient_float_pos)
  next
    case 4
    then show ?thesis by (simp add: padat_float_def)
  qed
qed

lemma float_denominator_pos:
  "float_sum3 (sedikit_float x) (sedang_float x) (padat_float x) > 0"
  using membership_float_nonneg [of x] membership_float_some_pos [of x]
  by (intro float_sum3_pos) auto

lemma float_sum3_units: "float_sum3 1 0 0 = 1 \<and> float_sum3 0 0 1 = 1 \<and> float_sum3 0 1 0 = 1"
  by code_simp

lemma lane_float_sum_4_to_9: "list_all lane_sum_is_one [4..9]"
  by code_simp

lemma lane_float_sum_integer:
  "float_sum3 (sedikit_float (of_int n)) (sedang_float (of_int n)) (padat_float (of_int n)) = 1"
proof -
  consider "n \<le> 3" | "n \<in> set [4..9]" | "10 \<le> n"
    by (simp only: set_upto atLeastAtMost_iff) linarith
  then show ?thesis
  proof cases
    case 1
    then show ?thesis
      by (simp add: sedikit_float_def sedang_float_def padat_float_def float_sum3_units)
  next
    case 2
    then show ?thesis
      using lane_float_sum_4_to_9 unfolding list_all_iff lane_sum_is_one_def by blast
  next
    case 3
    then show ?thesis
      by (simp add: sedikit_float_def sedang_float_def padat_float_def float_sum3_units)
  qed
qed

lemma defuzzify_float_units:
  "defuzzify_float_body 1 0 0 True = 15 \<and> defuzzify_float_body 1 0 0 False = 10
   \<and> defuzzify_float_body 0 0 1 True = 60 \<and> defuzzify_float_body 0 0 1 False = 40"
  by code_simp

lemma defuzzify_float_4_to_6: "list_all defuzzify_float_is_exact [4..6]"
  by code_simp

lemma defuzzify_float_7_to_9: "list_all defuzzify_float_is_exact [7..9]"
  by code_simp

lemma defuzzify_float_integer:
  "defuzzify_float (of_int n) j = defuzzify (of_int n) j"
proof -
  consider "n \<le> 3" | "n \<in> set [4..6]" | "n \<in> set [7..9]" | "10 \<le> n"
    by (simp only: set_upto atLeastAtMost_iff) linarith
  then show ?thesis
  proof cases
    case 1
    then show ?thesis
      using defuzzify_float_units
      by (cases j) (simp_all add: defuzzify_float_def sedikit_float_def sedang_float_def
          padat_float_def defuzzify_def defuzzify_body_def sedikit_def sedang_def padat_def)
  next
    case 2
    then show ?thesis
      using defuzzify_float_4_to_6
      unfolding list_all_iff defuzzify_float_is_exact_def by (cases j) auto
  next
    case 3
    then show ?thesis
      using defuzzify_float_7_to_9
      unfolding list_all_iff defuzzify_float_is_exact_def by (cases j) auto
  next
    case 4
    then show ?thesis
      using defuzzify_float_units
      by (cases j) (simp_all add: defuzzify_float_def sedikit_float_def sedang_float_def
          padat_float_def defuzzify_def defuzzify_body_def sedikit_def sedang_def padat_def)
  qed
qed

lemma defuzzify_float_no_fallback:
  "defuzzify_float x j =
     to_float (float_numerator (sedikit_float x) (sedang_float x) (padat_float x) j
               / float_sum3 (sedikit_float x) (sedang_float x) (padat_float x))"
  using float_denominator_pos [of x]
  by (simp add: defuzzify_float_def defuzzify_float_body_def Let_def)

lemma sim_float_sum_11_to_20: "list_all sim_sum_is_one [11..20]"
  by code_simp

lemma sim_float_sum_21_to_30: "list_all sim_sum_is_one [21..30]"
  by code_simp

lemma sim_float_sum_31_to_40: "list_all sim_sum_is_one [31..40]"
  by code_simp

lemma sim_float_sum_41_to_50: "list_all sim_sum_is_one [41..50]"
  by code_simp

lemma sim_float_sum_integer:
  "float_sum3 (sedikit_sim (of_int n)) (sedang_sim (of_int n)) (padat_sim (of_int n)) = 1"
proof -
  consider "n \<le> 10" | "n \<in> set [11..20]" | "n \<in> set [21..30]" | "n \<in> set [31..40]"
    | "n \<in> set [41..50]" | "51 \<le> n"
    by (simp only: set_upto atLeastAtMost_iff) linarith
  then show ?thesis
  proof cases
    case 1
    then show ?thesis
      by (simp add: sedikit_sim_def sedang_sim_def padat_sim_def float_sum3_units)
  next
    case 2
    then show ?thesis
      using sim_float_sum_11_to_20 unfolding list_all_iff sim_sum_is_one_def by blast
  next
    case 3
    then show ?thesis
      using sim_float_sum_21_to_30 unfolding list_all_iff sim_sum_is_one_def by blast
  next
    case 4
    then show ?thesis
      using sim_float_sum_31_to_40 unfolding list_all_iff sim_sum_is_one_def by blast
  next
    case 5
    then show ?thesis
      using sim_float_sum_41_to_50 unfolding list_all_iff sim_sum_is_one_def by blast
  next
    case 6
    then show ?thesis
      by (simp add: sedikit_sim_def sedang_sim_def padat_sim_def float_sum3_units)
  qed
qed

text \<open>
  Claim C10, as the code has it. Read over the real numbers, the three membership degrees
  add up to exactly 1 for every vehicle count, negative ones and 0 included, in the lane
  controller and in the console simulation; the degrees are not negative, the denominator
  of \<open>defuzzify\<close> is not 0, and the duration is the convex combination of the three base
  durations with the degrees as weights. As the type \<^verbatim>\<open>float\<close> computes, the
  degrees of the lane controller are not negative and their sum, the denominator of
  \<^verbatim>\<open>defuzzify\<close>, is positive for every count, so the fallback branch is never taken;
  at every whole count \<open>n\<close>, which is what the lane controller passes, this sum is
  exactly 1 and the duration returned is the convex combination itself; and the sum of
  the simulation's degrees is exactly 1 at every whole count.
\<close>

theorem membership_partition_of_unity:
  "sedikit x + sedang x + padat x = 1
   \<and> sedikit_sim_exact x + sedang_sim_exact x + padat_sim_exact x = 1
   \<and> sedikit x + sedang x + padat x \<noteq> 0
   \<and> 0 \<le> sedikit x \<and> 0 \<le> sedang x \<and> 0 \<le> padat x
   \<and> defuzzify x jamSibuk =
       sedikit x * baseDurations jamSibuk ! 0 + sedang x * baseDurations jamSibuk ! 1
       + padat x * baseDurations jamSibuk ! 2
   \<and> 0 \<le> sedikit_float x \<and> 0 \<le> sedang_float x \<and> 0 \<le> padat_float x
   \<and> 0 < float_sum3 (sedikit_float x) (sedang_float x) (padat_float x)
   \<and> defuzzify_float x jamSibuk =
       to_float (float_numerator (sedikit_float x) (sedang_float x) (padat_float x) jamSibuk
                 / float_sum3 (sedikit_float x) (sedang_float x) (padat_float x))
   \<and> float_sum3 (sedikit_float (of_int n)) (sedang_float (of_int n)) (padat_float (of_int n))
       = 1
   \<and> defuzzify_float (of_int n) jamSibuk = defuzzify (of_int n) jamSibuk
   \<and> float_sum3 (sedikit_sim (of_int n)) (sedang_sim (of_int n)) (padat_sim (of_int n)) = 1"
proof -
  have s: "sedikit x + sedang x + padat x = 1" by (rule membership_sum)
  have "defuzzify x jamSibuk =
       sedikit x * baseDurations jamSibuk ! 0 + sedang x * baseDurations jamSibuk ! 1
       + padat x * baseDurations jamSibuk ! 2"
    using s by (simp add: defuzzify_def defuzzify_body_def baseDurations_def Let_def)
  then have exact: "sedikit x + sedang x + padat x = 1
   \<and> sedikit_sim_exact x + sedang_sim_exact x + padat_sim_exact x = 1
   \<and> sedikit x + sedang x + padat x \<noteq> 0
   \<and> 0 \<le> sedikit x \<and> 0 \<le> sedang x \<and> 0 \<le> padat x
   \<and> defuzzify x jamSibuk =
       sedikit x * baseDurations jamSibuk ! 0 + sedang x * baseDurations jamSibuk ! 1
       + padat x * baseDurations jamSibuk ! 2"
    using s membership_sum_sim_exact [of x] membership_nonneg [of x] by simp
  show ?thesis
    using exact membership_float_nonneg [of x] float_denominator_pos [of x]
      defuzzify_float_no_fallback [of x jamSibuk] lane_float_sum_integer [of n]
      defuzzify_float_integer [of n jamSibuk] sim_float_sum_integer [of n]
    by blast
qed

text \<open>
  Claim C10, as stated, fails for the membership functions of the console simulation,
  which reads the count into a \<^verbatim>\<open>float\<close>. At the count 12.7 the low degree is
  14512291 / 16777216 (0.86499995) and the medium degree 566231 / 4194304 (0.13500000),
  the high degree is 0: their sum is 1 - 1 / 16777216 (0.99999994), both exactly and as
  the program adds them.
\<close>

theorem membership_sum_float_counterexample:
  "to_float count_12_7 = count_12_7
   \<and> sedikit_sim count_12_7 = 14512291 / 16777216
   \<and> sedang_sim count_12_7 = 566231 / 4194304
   \<and> padat_sim count_12_7 = 0
   \<and> sedikit_sim count_12_7 + sedang_sim count_12_7 + padat_sim count_12_7 \<noteq> 1
   \<and> float_sum3 (sedikit_sim count_12_7) (sedang_sim count_12_7) (padat_sim count_12_7)
       = 1 - 1 / 16777216"
  by code_simp

text \<open>
  Claim C8, as the code has it. The two lane controllers use the same rush-hour predicate,
  true exactly for the hours 7 to 9 and 17 to 19. The console simulation uses another one,
  true exactly for the hours 7 to 9 and 16 to 19; it agrees with the controllers at every
  hour except 16.
\<close>

theorem isJamSibuk_agreement:
  "isJamSibuk jam = isJamSibuk_lane1 jam
   \<and> (isJamSibuk jam \<longleftrightarrow> jam \<in> {7..9} \<union> {17..19})
   \<and> (isJamSibuk_sim jam \<longleftrightarrow> jam \<in> {7..9} \<union> {16..19})
   \<and> (isJamSibuk_sim jam = isJamSibuk jam \<longleftrightarrow> jam \<noteq> 16)"
  by (auto simp add: isJamSibuk_def isJamSibuk_lane1_def isJamSibuk_sim_def)

text \<open>
  Claim C8, as stated, fails: at hour 16 the simulation's predicate is true and the lane
  controllers' predicate is false.
\<close>

theorem isJamSibuk_counterexample:
  "isJamSibuk_sim 16 \<and> \<not> isJamSibuk 16 \<and> \<not> isJamSibuk_lane1 16"
  by (simp add: isJamSibuk_def isJamSibuk_lane1_def isJamSibuk_sim_def)

section \<open>States reached by the concrete runs\<close>

lemma turn_3_two_vehicles_eq:
  "turn_3_two_vehicles =
     \<lparr>vehicleCount = 2,
      lastReceivedData =
        \<lparr>road_section_id = 3, total_vehicles = 2, timestamp = ''2025-04-22 10:00:00'',
         new_data = True, duration_published = False, green_request_sent = False,
         data_received_time = 1000\<rparr>,
      currentGreenSection = 0, greenLightRequested = False,
      waitingForGreenPermission = False, nextExpectedSection = 3,
      light = \<lparr>red = True, yellow = False, green = False\<rparr>, trace = []\<rparr>"
  by code_simp

section \<open>The grant decision\<close>

lemma callback_green_request:
  "gr_section doc = Some r \<Longrightarrow>
   mqtt_callback e (GreenRequest (Some doc)) s =
     (if currentGreenSection s = 0 \<and> r = nextExpectedSection s
         \<and> \<not> (new_data (lastReceivedData s) \<and> vehicleCount s > 0
                \<and> ROAD_SECTION_ID = nextExpectedSection s)
      then s\<lparr>trace := trace s @ [Publish (GreenPermissionMsg r ROAD_SECTION_ID)]\<rparr>
      else s)"
  unfolding mqtt_callback.simps on_green_request_def should_grant_def publish_def
  by (cases "currentGreenSection s = 0"; cases "r = nextExpectedSection s";
      cases "new_data (lastReceivedData s) \<and> vehicleCount s > 0
                \<and> ROAD_SECTION_ID = nextExpectedSection s")
    (simp_all only: option.case if_True if_False simp_thms)

lemma callback_green_request_not_expected:
  "gr_section doc = Some r \<Longrightarrow> r \<noteq> nextExpectedSection s \<Longrightarrow>
   mqtt_callback e (GreenRequest (Some doc)) s = s"
  by (simp add: on_green_request_def should_grant_def)

lemma callback_green_request_lane1:
  "gr_section doc = Some r \<Longrightarrow>
   mqtt_callback_lane1 (GreenRequest (Some doc)) t =
     (if currentGreenSection_l1 t = 0
      then t\<lparr>trace_l1 := trace_l1 t @ [Publish (GreenPermissionMsg r ROAD_SECTION_ID_lane1)]\<rparr>
      else t)"
  by (simp add: publish_lane1_def)

text \<open>
  Claim C1, as the code has it. On a request from section \<open>r\<close>, the controller of lane 3
  publishes a grant if and only if it believes no section green, \<open>r\<close> is its expected next
  section, and it does not itself hold new data with a positive vehicle count while being
  the expected next section; otherwise its state and outputs are unchanged. In particular
  it publishes nothing when \<open>r\<close> is not its expected next section. The controller of lane 1,
  which keeps no expected next section, publishes a grant if and only if it believes no
  section green, whatever \<open>r\<close> is.
\<close>

theorem green_request_grant_rule:
  assumes "gr_section doc = Some r"
  shows "mqtt_callback e (GreenRequest (Some doc)) s =
     (if currentGreenSection s = 0 \<and> r = nextExpectedSection s
         \<and> \<not> (new_data (lastReceivedData s) \<and> vehicleCount s > 0
                \<and> ROAD_SECTION_ID = nextExpectedSection s)
      then s\<lparr>trace := trace s @ [Publish (GreenPermissionMsg r ROAD_SECTION_ID)]\<rparr>
      else s)
   \<and> (r \<noteq> nextExpectedSection s \<longrightarrow> mqtt_callback e (GreenRequest (Some doc)) s = s)
   \<and> mqtt_callback_lane1 (GreenRequest (Some doc)) t =
     (if currentGreenSection_l1 t = 0
      then t\<lparr>trace_l1 := trace_l1 t @ [Publish (GreenPermissionMsg r ROAD_SECTION_ID_lane1)]\<rparr>
      else t)"
proof (intro conjI impI)
  show "mqtt_callback e (GreenRequest (Some doc)) s =
     (if currentGreenSection s = 0 \<and> r = nextExpectedSection s
         \<and> \<not> (new_data (lastReceivedData s) \<and> vehicleCount s > 0
                \<and> ROAD_SECTION_ID = nextExpectedSection s)
      then s\<lparr>trace := trace s @ [Publish (GreenPermissionMsg r ROAD_SECTION_ID)]\<rparr>
      else s)"
    by (rule callback_green_request [OF assms])
  show "mqtt_callback e (GreenRequest (Some doc)) s = s" if "r \<noteq> nextExpectedSection s"
    by (rule callback_green_request_not_expected [OF assms that])
  show "mqtt_callback_lane1 (GreenRequest (Some doc)) t =
     (if currentGreenSection_l1 t = 0
      then t\<lparr>trace_l1 := trace_l1 t @ [Publish (GreenPermissionMsg r ROAD_SECTION_ID_lane1)]\<rparr>
      else t)"
    by (rule callback_green_request_lane1 [OF assms])
qed

text \<open>
  The rule at work on lane 3: in the initial state (expected next section 1) a request of
  section 1 is granted and one of section 2 is not; a request of section 3 is not granted
  by lane 3 itself while it holds two vehicles and is the expected next section. And on
  lane 1: a request of section 2 is granted.
\<close>

theorem green_request_grant_rule_witness:
  "trace (mqtt_callback at_10_00_30 (GreenRequest (Some (request_from 1))) init_node)
     = [Publish (GreenPermissionMsg 1 3)]
   \<and> mqtt_callback at_10_00_30 (GreenRequest (Some (request_from 2))) init_node = init_node
   \<and> mqtt_callback at_10_00_30 (GreenRequest (Some (request_from 3))) turn_3_two_vehicles
       = turn_3_two_vehicles
   \<and> trace_l1 (mqtt_callback_lane1 (GreenRequest (Some (request_from 2))) init_node_lane1)
       = [Publish (GreenPermissionMsg 2 1)]"
proof -
  have h: "gr_section (request_from n) = Some n" for n
    by (simp add: request_from_def)
  have a: "trace (mqtt_callback at_10_00_30 (GreenRequest (Some (request_from 1))) init_node)
     = [Publish (GreenPermissionMsg 1 3)]"
    using green_request_grant_rule [OF h, where e = at_10_00_30 and s = init_node]
    by (simp add: init_node_def ROAD_SECTION_ID_def)
  have b: "mqtt_callback at_10_00_30 (GreenRequest (Some (request_from 2))) init_node = init_node"
    using green_request_grant_rule [OF h, where e = at_10_00_30 and s = init_node]
    by (simp add: init_node_def)
  have c: "mqtt_callback at_10_00_30 (GreenRequest (Some (request_from 3))) turn_3_two_vehicles
       = turn_3_two_vehicles"
    using green_request_grant_rule [OF h, where e = at_10_00_30 and s = turn_3_two_vehicles]
    by (simp add: turn_3_two_vehicles_eq ROAD_SECTION_ID_def)
  have d: "trace_l1 (mqtt_callback_lane1 (GreenRequest (Some (request_from 2))) init_node_lane1)
       = [Publish (GreenPermissionMsg 2 1)]"
    using green_request_grant_rule [OF h, where t = init_node_lane1]
    by (simp add: init_node_lane1_def ROAD_SECTION_ID_lane1_def)
  from a b c d show ?thesis by blast
qed

text \<open>
  Claim C1, as stated, fails on the controller of lane 1: in its initial state it grants
  the request of section 2 and the request of section 3 alike, so it grants a section that
  is not the next one in any order.
\<close>

theorem green_request_lane1_counterexample:
  "trace_l1 (mqtt_callback_lane1 (GreenRequest (Some (request_from 2))) init_node_lane1)
     = [Publish (GreenPermissionMsg 2 1)]
   \<and> trace_l1 (mqtt_callback_lane1 (GreenRequest (Some (request_from 3))) init_node_lane1)
     = [Publish (GreenPermissionMsg 3 1)]"
  by code_simp

section \<open>Reset\<close>

text \<open>
  Claim C7, as the code has it. A reset command, that is a payload which after trimming
  and lower-casing reads \<open>true\<close>, \<open>1\<close> or \<open>reset\<close>, puts the controller into its initial
  state when the handler returns, whatever the state was: no green holder, expected next
  section 1, the stored observation and all flags cleared, the light red (one write of
  the pins is added to the outputs). Any other payload on the reset topic changes
  nothing.
\<close>

theorem reset_reinitializes:
  "(valid_reset_command message \<longrightarrow>
      mqtt_callback e (ResetCmd message) s =
        init_node\<lparr>trace := trace s @ [DigitalWrite True False False]\<rparr>
      \<and> currentGreenSection (mqtt_callback e (ResetCmd message) s) = 0
      \<and> nextExpectedSection (mqtt_callback e (ResetCmd message) s) = 1
      \<and> vehicleCount (mqtt_callback e (ResetCmd message) s) = 0
      \<and> lastReceivedData (mqtt_callback e (ResetCmd message) s) = lastReceivedData init_node
      \<and> \<not> new_data (lastReceivedData (mqtt_callback e (ResetCmd message) s))
      \<and> \<not> green_request_sent (lastReceivedData (mqtt_callback e (ResetCmd message) s))
      \<and> \<not> greenLightRequested (mqtt_callback e (ResetCmd message) s)
      \<and> \<not> waitingForGreenPermission (mqtt_callback e (ResetCmd message) s)
      \<and> light (mqtt_callback e (ResetCmd message) s)
          = \<lparr>red = True, yellow = False, green = False\<rparr>)
   \<and> (\<not> valid_reset_command message \<longrightarrow> mqtt_callback e (ResetCmd message) s = s)"
  by (simp add: on_reset_def resetAllData_def allRed_def setTrafficLight_def init_node_def)

text \<open>
  A reset command with blanks and capitals, received by lane 3 while it is the expected
  next section and holds two vehicles; and the payload \<open>0\<close>, which is no reset command.
\<close>

theorem reset_reinitializes_witness:
  "nextExpectedSection (mqtt_callback at_10_00_30 (ResetCmd '' Reset '') turn_3_two_vehicles) = 1
   \<and> vehicleCount (mqtt_callback at_10_00_30 (ResetCmd '' Reset '') turn_3_two_vehicles) = 0
   \<and> nextExpectedSection turn_3_two_vehicles = 3
   \<and> vehicleCount turn_3_two_vehicles = 2
   \<and> mqtt_callback at_10_00_30 (ResetCmd ''0'') turn_3_two_vehicles = turn_3_two_vehicles"
proof -
  have v: "valid_reset_command '' Reset ''" by code_simp
  have n: "\<not> valid_reset_command ''0''" by code_simp
  have a: "nextExpectedSection (mqtt_callback at_10_00_30 (ResetCmd '' Reset '') turn_3_two_vehicles) = 1
   \<and> vehicleCount (mqtt_callback at_10_00_30 (ResetCmd '' Reset '') turn_3_two_vehicles) = 0"
    using reset_reinitializes [of "'' Reset ''" at_10_00_30 turn_3_two_vehicles] v by blast
  have b: "mqtt_callback at_10_00_30 (ResetCmd ''0'') turn_3_two_vehicles = turn_3_two_vehicles"
    using reset_reinitializes [of "''0''" at_10_00_30 turn_3_two_vehicles] n by blast
  have c: "nextExpectedSection turn_3_two_vehicles = 3 \<and> vehicleCount turn_3_two_vehicles = 2"
    by (simp add: turn_3_two_vehicles_eq)
  from a b c show ?thesis by blast
qed

text \<open>
  Claim C7, as stated, fails in the middle of the green phase. Lane 3 holds two vehicles,
  is granted the green light and starts the countdown of 10 seconds; the reset command
  arrives in the first second. The handler turns the light red and sets the expected next
  section to 1, but the loop goes on: it keeps publishing the countdown with phase green,
  switches to yellow, sets the expected next section to 4, announces it, and only then
  returns to red. And the payload \<open>false\<close> on the reset topic resets nothing.
\<close>

theorem reset_mid_green_counterexample:
  "nextExpectedSection (loop granted_then_reset turn_3_two_vehicles) = 4
   \<and> trace (loop granted_then_reset turn_3_two_vehicles) =
      [Publish (DurationMsg 3 2 10 ''2025-04-22 10:00:00''),
       Publish (GreenRequestMsg 3 ''2025-04-22 10:00:30'' 1000),
       DigitalWrite True False False, DigitalWrite False True False,
       DigitalWrite False False True,
       Publish (GreenStatusMsg 3 ''green'' ''2025-04-22 10:00:30''),
       Publish (CountdownSyncMsg 3 10 ''green'' 1),
       DigitalWrite True False False,
       Publish (CountdownSyncMsg 3 8 ''green'' 1),
       Publish (CountdownSyncMsg 3 6 ''green'' 1),
       Publish (CountdownSyncMsg 3 4 ''green'' 1),
       Publish (CountdownSyncMsg 3 3 ''green'' 1),
       Publish (CountdownSyncMsg 3 2 ''green'' 1),
       Publish (CountdownSyncMsg 3 1 ''green'' 1),
       DigitalWrite False True False, Publish (NextLaneReadyMsg 4 3),
       DigitalWrite True False False,
       Publish (GreenStatusMsg 3 ''red'' ''2025-04-22 10:00:30'')]
   \<and> tick_inbox (le_ticks granted_then_reset 10) = Some (at_10_00_30, ResetCmd ''reset'')
   \<and> valid_reset_command ''reset''
   \<and> mqtt_callback at_10_00_30 (ResetCmd ''false'') turn_3_two_vehicles = turn_3_two_vehicles"
  by code_simp

section \<open>Waiting for permission\<close>

lemma no_green_since_refl: "no_green_since s s"
  by (simp add: no_green_since_def)

lemma no_green_since_append:
  "trace s' = trace s @ added \<Longrightarrow> list_all (\<lambda>ev. \<not> green_event ev) added \<Longrightarrow>
   no_green_since s s'"
  by (simp add: no_green_since_def)

lemma no_green_sinceD:
  "no_green_since s s' \<Longrightarrow>
   \<exists>added. trace s' = trace s @ added \<and> list_all (\<lambda>ev. \<not> green_event ev) added"
  unfolding no_green_since_def
  by (metis append_take_drop_id)

lemma no_green_since_trans:
  assumes "no_green_since s s'" and "no_green_since s' s''"
  shows "no_green_since s s''"
proof -
  obtain a where a: "trace s' = trace s @ a" "list_all (\<lambda>ev. \<not> green_event ev) a"
    using no_green_sinceD [OF assms(1)] by blast
  obtain b where b: "trace s'' = trace s' @ b" "list_all (\<lambda>ev. \<not> green_event ev) b"
    using no_green_sinceD [OF assms(2)] by blast
  have "trace s'' = trace s @ (a @ b)" using a b by simp
  moreover have "list_all (\<lambda>ev. \<not> green_event ev) (a @ b)" using a b by simp
  ultimately show ?thesis by (rule no_green_since_append)
qed


text \<open>No message handler turns the green lamp on or publishes the status green.\<close>

lemma callback_no_green: "no_green_since s (mqtt_callback e m s)"
proof (cases m)
  case (VehicleCount d)
  then show ?thesis
    by (auto simp: on_vehicle_count_def store_vehicle_count_def no_green_since_def
        split: option.splits)
next
  case (GreenStatus d)
  then show ?thesis
    by (auto simp: on_green_status_def no_green_since_def split: option.splits)
next
  case (GreenRequest d)
  then show ?thesis
    by (auto simp: on_green_request_def publish_def no_green_since_def split: option.splits)
next
  case (GreenPermission d)
  then show ?thesis
    by (auto simp: on_green_permission_def no_green_since_def split: option.splits)
next
  case (ResetCmd message)
  then show ?thesis
    by (auto simp: on_reset_def resetAllData_def allRed_def setTrafficLight_def
        no_green_since_def)
next
  case (NextLaneReady d)
  then show ?thesis
    by (auto simp: on_next_lane_ready_def Let_def no_green_since_def split: option.splits)
qed (simp_all add: no_green_since_def)

lemma deliver_no_green: "no_green_since s (deliver msg s)"
  by (cases msg) (auto simp: deliver_def no_green_since_refl callback_no_green)

lemma wait_no_green: "no_green_since s (wait_for_permission bs s)"
proof (induction bs arbitrary: s)
  case Nil
  show ?case by (simp add: no_green_since_refl)
next
  case (Cons b bs)
  show ?case
  proof (cases "waitingForGreenPermission s")
    case True
    then show ?thesis
      using no_green_since_trans [OF deliver_no_green Cons.IH] by simp
  next
    case False
    then show ?thesis by (simp add: no_green_since_refl)
  qed
qed




lemma wait_not_waiting: "\<not> waitingForGreenPermission s \<Longrightarrow> wait_for_permission bs s = s"
  by (cases bs) simp_all



lemma apply_data_timeout_frame:
  "trace (apply_data_timeout e s) = trace s"
  "vehicleCount (apply_data_timeout e s) = vehicleCount s"
  "light (apply_data_timeout e s) = light s"
  by (simp_all add: apply_data_timeout_def clear_data_flags_def Let_def)

lemma publish_duration_once_frame:
  "vehicleCount (publish_duration_once e d s) = vehicleCount s"
  "light (publish_duration_once e d s) = light s"
  "currentGreenSection (publish_duration_once e d s) = currentGreenSection s"
  "nextExpectedSection (publish_duration_once e d s) = nextExpectedSection s"
  "green_request_sent (lastReceivedData (publish_duration_once e d s))
     = green_request_sent (lastReceivedData s)"
  by (simp_all add: publish_duration_once_def publish_duration_def publish_def Let_def)

lemma publish_duration_once_no_green: "no_green_since s (publish_duration_once e d s)"
  by (simp add: publish_duration_once_def publish_duration_def publish_def Let_def
      no_green_since_def)






















section \<open>The expected next section\<close>

lemma getNextSection_cycle:
  "getNextSection 1 = 2 \<and> getNextSection 2 = 3 \<and> getNextSection 3 = 4 \<and> getNextSection 4 = 1"
  by (simp add: getNextSection_def signed_modulo_int_def)

lemma callback_next_expected:
  "nextExpectedSection (mqtt_callback e m s) =
     (case m of
        GreenStatus (Some doc) \<Rightarrow>
          if gs_section doc = Some (currentGreenSection s) \<and> gs_status doc = Some ''red''
          then getNextSection (currentGreenSection s)
          else nextExpectedSection s
      | NextLaneReady (Some doc) \<Rightarrow>
          (case nl_next_expected_section doc of
             None \<Rightarrow> nextExpectedSection s
           | Some n \<Rightarrow> n)
      | ResetCmd message \<Rightarrow> if valid_reset_command message then 1 else nextExpectedSection s
      | _ \<Rightarrow> nextExpectedSection s)"
proof (cases m)
  case (VehicleCount d)
  then show ?thesis
    by (auto simp: on_vehicle_count_def store_vehicle_count_def split: option.splits)
next
  case (GreenStatus d)
  then show ?thesis by (auto simp: on_green_status_def split: option.splits)
next
  case (GreenRequest d)
  then show ?thesis by (auto simp: on_green_request_def publish_def split: option.splits)
next
  case (GreenPermission d)
  then show ?thesis by (auto simp: on_green_permission_def split: option.splits)
next
  case (ResetCmd message)
  then show ?thesis
    by (simp add: on_reset_def resetAllData_def allRed_def setTrafficLight_def)
next
  case (NextLaneReady d)
  then show ?thesis by (auto simp: on_next_lane_ready_def Let_def split: option.splits)
qed simp_all

lemma callback_keeps_next:
  "\<not> sets_next m \<Longrightarrow> nextExpectedSection (mqtt_callback e m s) = nextExpectedSection s"
  unfolding callback_next_expected
  by (auto simp: sets_next_def split: inbound.splits option.splits)

lemma deliver_keeps_next:
  "keeps_next msg \<Longrightarrow> nextExpectedSection (deliver msg s) = nextExpectedSection s"
  by (cases msg) (auto simp: deliver_def keeps_next_def callback_keeps_next)

lemma wait_keeps_next:
  "list_all keeps_next bs \<Longrightarrow>
   nextExpectedSection (wait_for_permission bs s) = nextExpectedSection s"
proof (induction bs arbitrary: s)
  case Nil
  show ?case by simp
next
  case (Cons b bs)
  from Cons.prems have b: "keeps_next b" and bs: "list_all keeps_next bs"
    by simp_all
  show ?case
    using Cons.IH [OF bs, of "deliver b s"] deliver_keeps_next [OF b, of s] by simp
qed

lemma trace_extends_trans:
  "\<exists>a. trace s' = trace s @ a \<Longrightarrow> \<exists>b. trace s'' = trace s' @ b \<Longrightarrow>
   \<exists>c. trace s'' = trace s @ c"
  by auto

lemma deliver_trace_extends: "\<exists>a. trace (deliver msg s) = trace s @ a"
  using no_green_sinceD [OF deliver_no_green [of s msg]] by blast

lemma countdown_trace_extends: "\<exists>a. trace (countdown_from n ticks s) = trace s @ a"
proof (induction n arbitrary: s)
  case 0
  show ?case by simp
next
  case (Suc n)
  define s1 where "s1 = (if Suc n mod 2 = 0 \<or> Suc n \<le> 3
                then publish_countdown_sync (tick_env (ticks (Suc n))) (int (Suc n)) ''green'' s
                else s)"
  have 1: "\<exists>a. trace s1 = trace s @ a"
    by (simp add: s1_def publish_countdown_sync_def publish_def)
  have 2: "\<exists>a. trace (deliver (tick_inbox (ticks (Suc n))) s1) = trace s1 @ a"
    by (rule deliver_trace_extends)
  have 3: "\<exists>a. trace (countdown_from n ticks (deliver (tick_inbox (ticks (Suc n))) s1))
             = trace (deliver (tick_inbox (ticks (Suc n))) s1) @ a"
    by (rule Suc.IH)
  have "countdown_from (Suc n) ticks s
          = countdown_from n ticks (deliver (tick_inbox (ticks (Suc n))) s1)"
    by (simp add: s1_def Let_def)
  then show ?case
    using trace_extends_trans [OF trace_extends_trans [OF 1 2] 3] by simp
qed

lemma sequence_next_expected:
  "nextExpectedSection (traffic_light_sequence le d s) = getNextSection ROAD_SECTION_ID"
  by (simp add: traffic_light_sequence_def Let_def clear_data_flags_def
      publish_green_status_def publish_def setTrafficLight_def)

lemma sequence_turns_green:
  "\<exists>rest. trace (traffic_light_sequence le d s) =
     trace s @ [DigitalWrite True False False, DigitalWrite False True False,
                DigitalWrite False False True] @ rest"
proof -
  define g where "g = publish_green_status (le_env le) ''green''
     (setTrafficLight False False True (setTrafficLight False True False
        (setTrafficLight True False False s)))"
  define c where "c = countdownTimer (int_of_float d) (le_ticks le) g"
  have tg: "trace g = trace s @ [DigitalWrite True False False, DigitalWrite False True False,
                DigitalWrite False False True]
              @ [Publish (GreenStatusMsg ROAD_SECTION_ID ''green'' (currentTimestamp (le_env le)))]"
    by (simp add: g_def publish_green_status_def publish_def setTrafficLight_def)
  obtain a where a: "trace c = trace g @ a"
    unfolding c_def countdownTimer_def using countdown_trace_extends by blast
  have "\<exists>b. trace (traffic_light_sequence le d s) = trace c @ b"
    by (simp add: traffic_light_sequence_def Let_def clear_data_flags_def
      publish_green_status_def publish_def setTrafficLight_def c_def g_def)
  then obtain b where b: "trace (traffic_light_sequence le d s) = trace c @ b" by blast
  show ?thesis
    unfolding b a tg by simp
qed

lemma request_and_wait_next:
  "list_all keeps_next (le_polls le) \<Longrightarrow>
   nextExpectedSection (request_and_wait le s) = nextExpectedSection s"
  using wait_keeps_next [of "le_polls le"]
  by (simp add: request_and_wait_def Let_def request_green_permission_def publish_def)

lemma request_and_wait_trace_extends:
  "\<exists>a. trace (request_and_wait le s) = trace s @ a"
proof -
  define r where "r = (request_green_permission (le_env le) (s\<lparr>currentGreenSection := ROAD_SECTION_ID\<rparr>))
                        \<lparr>lastReceivedData :=
                           (lastReceivedData (request_green_permission (le_env le)
                              (s\<lparr>currentGreenSection := ROAD_SECTION_ID\<rparr>)))
                             \<lparr>green_request_sent := True\<rparr>\<rparr>"
  have rw: "request_and_wait le s = wait_for_permission (le_polls le) r"
    by (simp add: request_and_wait_def r_def Let_def)
  have 1: "\<exists>a. trace r = trace s @ a"
    by (simp add: r_def request_green_permission_def publish_def)
  have 2: "\<exists>a. trace (wait_for_permission (le_polls le) r) = trace r @ a"
    using no_green_sinceD [OF wait_no_green [of r "le_polls le"]] by blast
  show ?thesis
    unfolding rw by (rule trace_extends_trans [OF 1 2])
qed

lemma went_green_after:
  assumes "\<exists>a. trace s0 = trace s @ a"
  shows "list_ex green_event (drop (length (trace s)) (trace (traffic_light_sequence le d s0)))"
proof -
  obtain a where a: "trace s0 = trace s @ a" using assms by blast
  obtain rest where r: "trace (traffic_light_sequence le d s0) =
     trace s0 @ [DigitalWrite True False False, DigitalWrite False True False,
                DigitalWrite False False True] @ rest"
    using sequence_turns_green by blast
  show ?thesis unfolding r a by simp
qed

lemma loop_decide_next_expected:
  assumes quiet: "list_all keeps_next (le_polls le)"
  shows "nextExpectedSection (loop_decide le j s) = nextExpectedSection s
     \<or> (nextExpectedSection (loop_decide le j s) = getNextSection ROAD_SECTION_ID
        \<and> list_ex green_event (drop (length (trace s)) (trace (loop_decide le j s))))"
proof -
  define s2 where "s2 = apply_data_timeout le s"
  define s3 where "s3 = publish_duration_once le (defuzzify (vehicleCount s2) j) s2"
  have n2: "nextExpectedSection s2 = nextExpectedSection s"
    by (simp add: s2_def apply_data_timeout_def clear_data_flags_def Let_def)
  have n3: "nextExpectedSection s3 = nextExpectedSection s"
    by (simp add: s3_def publish_duration_once_frame n2)
  have t3: "\<exists>a. trace s3 = trace s @ a"
    using no_green_sinceD [OF publish_duration_once_no_green [of s2 le "defuzzify (vehicleCount s2) j"]]
    by (auto simp: s3_def s2_def apply_data_timeout_frame)
  show ?thesis
  proof (cases "new_data (lastReceivedData s2)")
    case False
    then have "loop_decide le j s = allRed s2"
      by (simp add: loop_decide_def s2_def Let_def)
    then show ?thesis by (simp add: allRed_def setTrafficLight_def n2)
  next
    case True
    show ?thesis
    proof (cases "vehicleCount s3 > 0 \<and> currentGreenSection s3 = 0
                 \<and> ROAD_SECTION_ID = nextExpectedSection s3
                 \<and> \<not> green_request_sent (lastReceivedData s3)")
      case req: True
      define r where "r = request_and_wait le s3"
      have nr: "nextExpectedSection r = nextExpectedSection s"
        unfolding r_def by (simp add: request_and_wait_next [OF quiet] n3)
      have tr: "\<exists>a. trace r = trace s @ a"
        unfolding r_def by (rule trace_extends_trans [OF t3 request_and_wait_trace_extends])
      have eq: "loop_decide le j s =
           (if waitingForGreenPermission r
            then r\<lparr>waitingForGreenPermission := False, currentGreenSection := 0\<rparr>
            else if currentGreenSection r \<noteq> ROAD_SECTION_ID then r
            else traffic_light_sequence le (defuzzify (vehicleCount s2) j) r)"
        using True req
        by (simp only: loop_decide_def Let_def s2_def [symmetric] s3_def [symmetric]
            r_def [symmetric] if_True simp_thms)
      show ?thesis
        unfolding eq using nr went_green_after [OF tr] by (simp add: sequence_next_expected)
    next
      case noreq: False
      show ?thesis
      proof (cases "vehicleCount s3 = 0 \<and> currentGreenSection s3 = 0
                      \<and> ROAD_SECTION_ID = nextExpectedSection s3
                      \<and> \<not> green_request_sent (lastReceivedData s3)")
        case zero: True
        then have nv: "\<not> vehicleCount s3 > 0" by simp
        define z where "z = s3\<lparr>currentGreenSection := ROAD_SECTION_ID,
                     lastReceivedData := (lastReceivedData s3)\<lparr>green_request_sent := True\<rparr>\<rparr>"
        have tz: "\<exists>a. trace z = trace s @ a"
          using t3 by (simp add: z_def)
        have eq: "loop_decide le j s = traffic_light_sequence le (defuzzify (vehicleCount s2) j) z"
          using True zero nv
          by (simp only: loop_decide_def Let_def s2_def [symmetric] s3_def [symmetric]
              z_def [symmetric] if_True if_False simp_thms)
        show ?thesis
          unfolding eq using went_green_after [OF tz] by (simp add: sequence_next_expected)
      next
        case nozero: False
        have "loop_decide le j s = s3 \<or> loop_decide le j s = clear_data_flags s3"
          using True noreq nozero
          by (simp only: loop_decide_def Let_def s2_def [symmetric] s3_def [symmetric]
              if_True if_False simp_thms split: if_splits)
        then show ?thesis
          using n3 by (auto simp: clear_data_flags_def)
      qed
    qed
  qed
qed

lemma list_ex_drop_more:
  "list_ex P (drop (n + k) xs) \<Longrightarrow> list_ex P (drop n xs)"
proof -
  assume "list_ex P (drop (n + k) xs)"
  then obtain x where "x \<in> set (drop k (drop n xs))" "P x"
    by (auto simp: list_ex_iff add.commute)
  then have "x \<in> set (drop n xs)" "P x"
    using set_drop_subset [of k "drop n xs"] by auto
  then show ?thesis by (auto simp: list_ex_iff)
qed

lemma loop_next_expected:
  assumes quiet: "list_all keeps_next (le_inbox le # le_polls le)"
  shows "nextExpectedSection (loop le s) = nextExpectedSection s
     \<or> (nextExpectedSection (loop le s) = getNextSection ROAD_SECTION_ID
        \<and> list_ex green_event (drop (length (trace s)) (trace (loop le s))))"
proof -
  from quiet have qi: "keeps_next (le_inbox le)"
    and qp: "list_all keeps_next (le_polls le)"
    by simp_all
  define s1 where "s1 = deliver (le_inbox le) s"
  have n1: "nextExpectedSection s1 = nextExpectedSection s"
    unfolding s1_def by (rule deliver_keeps_next [OF qi])
  obtain a where a: "trace s1 = trace s @ a"
    unfolding s1_def using deliver_trace_extends by blast
  show ?thesis
  proof (cases "le_hour le")
    case None
    then show ?thesis by (simp add: loop_def s1_def [symmetric] n1)
  next
    case (Some h)
    then have eq: "loop le s = loop_decide le (isJamSibuk h) s1"
      by (simp add: loop_def s1_def)
    show ?thesis
      unfolding eq
      using loop_decide_next_expected [OF qp, of "isJamSibuk h" s1] n1 a
        list_ex_drop_more [of green_event "length (trace s)" "length a"
          "trace (loop_decide le (isJamSibuk h) s1)"]
      by auto
  qed
qed

text \<open>
  Claim C3, as the code has it. \<open>getNextSection\<close> is the cyclic successor on the lanes 1
  to 4. The callback changes the expected next section in three cases only: a red status
  from the section believed green sets it to that section's successor; a next-lane-ready
  message sets it to the value the message carries, whatever was expected and whoever is
  green; a reset command sets it to 1. The light sequence of the loop sets it to the
  successor of the own lane. And in a call of the loop during which no message of these
  three kinds arrives before the sequence, it stays as it was unless the call went green.
\<close>

theorem next_expected_section_updates:
  "getNextSection 1 = 2 \<and> getNextSection 2 = 3 \<and> getNextSection 3 = 4 \<and> getNextSection 4 = 1
   \<and> nextExpectedSection (mqtt_callback e m s) =
     (case m of
        GreenStatus (Some doc) \<Rightarrow>
          if gs_section doc = Some (currentGreenSection s) \<and> gs_status doc = Some ''red''
          then getNextSection (currentGreenSection s)
          else nextExpectedSection s
      | NextLaneReady (Some doc) \<Rightarrow>
          (case nl_next_expected_section doc of
             None \<Rightarrow> nextExpectedSection s
           | Some n \<Rightarrow> n)
      | ResetCmd message \<Rightarrow> if valid_reset_command message then 1 else nextExpectedSection s
      | _ \<Rightarrow> nextExpectedSection s)
   \<and> nextExpectedSection (traffic_light_sequence le d s) = getNextSection ROAD_SECTION_ID
   \<and> (list_all keeps_next (le_inbox le # le_polls le) \<longrightarrow>
        nextExpectedSection (loop le s) = nextExpectedSection s
        \<or> (nextExpectedSection (loop le s) = getNextSection ROAD_SECTION_ID
           \<and> list_ex green_event (drop (length (trace s)) (trace (loop le s)))))"
  using getNextSection_cycle callback_next_expected [of e m s]
    sequence_next_expected [of le d s] loop_next_expected [of le s]
  by blast

lemma quiet_loop_quiet: "list_all keeps_next (le_inbox quiet_loop # le_polls quiet_loop)"
  by code_simp

lemma no_grant_loop_next:
  "nextExpectedSection (loop no_grant_loop turn_3_two_vehicles) = 3"
  by code_simp

text \<open>
  Two calls of the loop on lane 3 without such messages: one that waits in vain and leaves
  the expected next section at 3, one that goes green and leaves it at 4.
\<close>

theorem next_expected_section_updates_witness:
  "nextExpectedSection (loop no_grant_loop turn_3_two_vehicles)
     = nextExpectedSection turn_3_two_vehicles
   \<and> nextExpectedSection (loop quiet_loop (mqtt_callback at_10_00_30 next_lane_3 init_node)) = 4
   \<and> list_ex green_event
        (drop (length (trace (mqtt_callback at_10_00_30 next_lane_3 init_node)))
           (trace (loop quiet_loop (mqtt_callback at_10_00_30 next_lane_3 init_node))))"
proof -
  have "nextExpectedSection turn_3_two_vehicles = 3"
    by (simp add: turn_3_two_vehicles_eq)
  then have a: "nextExpectedSection (loop no_grant_loop turn_3_two_vehicles)
     = nextExpectedSection turn_3_two_vehicles"
    using no_grant_loop_next by simp
  have n: "nextExpectedSection (mqtt_callback at_10_00_30 next_lane_3 init_node) = 3"
    by code_simp
  note t = next_expected_section_updates [of at_10_00_30 next_lane_3
      "mqtt_callback at_10_00_30 next_lane_3 init_node" quiet_loop 0]
  from t have c: "getNextSection 3 = 4" by blast
  from t quiet_loop_quiet
  have "nextExpectedSection (loop quiet_loop (mqtt_callback at_10_00_30 next_lane_3 init_node))
          = nextExpectedSection (mqtt_callback at_10_00_30 next_lane_3 init_node)
        \<or> (nextExpectedSection (loop quiet_loop (mqtt_callback at_10_00_30 next_lane_3 init_node))
             = getNextSection ROAD_SECTION_ID
           \<and> list_ex green_event
        (drop (length (trace (mqtt_callback at_10_00_30 next_lane_3 init_node)))
           (trace (loop quiet_loop (mqtt_callback at_10_00_30 next_lane_3 init_node)))))"
    by blast
  then have "nextExpectedSection (loop quiet_loop (mqtt_callback at_10_00_30 next_lane_3 init_node)) = 3
        \<or> (nextExpectedSection (loop quiet_loop (mqtt_callback at_10_00_30 next_lane_3 init_node)) = 4
           \<and> list_ex green_event
        (drop (length (trace (mqtt_callback at_10_00_30 next_lane_3 init_node)))
           (trace (loop quiet_loop (mqtt_callback at_10_00_30 next_lane_3 init_node)))))"
    unfolding n ROAD_SECTION_ID_def c .
  moreover have "nextExpectedSection (loop quiet_loop (mqtt_callback at_10_00_30 next_lane_3 init_node)) \<noteq> 3"
    by code_simp
  ultimately show ?thesis using a by blast
qed

text \<open>
  Claim C3, as stated, fails. In the initial state no section is green and section 1 is
  expected; a next-lane-ready message carrying 3 makes 3 the expected section, which is
  not the successor of 1, and one carrying 7 makes it 7, which is no lane at all.
\<close>

theorem next_lane_ready_counterexample:
  "currentGreenSection init_node = 0 \<and> nextExpectedSection init_node = 1
   \<and> nextExpectedSection (mqtt_callback at_10_00_30 next_lane_3 init_node) = 3
   \<and> nextExpectedSection (mqtt_callback at_10_00_30 next_lane_7 init_node) = 7
   \<and> getNextSection 1 = 2"
  by code_simp

section \<open>Old observations\<close>

lemma callback_too_old:
  "too_old e doc \<Longrightarrow> mqtt_callback e (VehicleCount (Some doc)) s = s"
  by (simp add: on_vehicle_count_def)

lemma below_ten_cases:
  "k < (10::nat) \<Longrightarrow>
   k = 0 \<or> k = 1 \<or> k = 2 \<or> k = 3 \<or> k = 4 \<or> k = 5 \<or> k = 6 \<or> k = 7 \<or> k = 8 \<or> k = 9"
  by arith

lemma digit_char_props:
  "digit_value (digit_char n) = Some (int (n mod 10))"
  "\<not> isspace (digit_char n)"
  "digit_char n \<noteq> CHR ''-''"
  "digit_char n \<noteq> CHR ''+''"
proof -
  have "n mod 10 < 10" by simp
  from below_ten_cases [OF this]
  have "digit_value (digit_char n) = Some (int (n mod 10))
     \<and> \<not> isspace (digit_char n) \<and> digit_char n \<noteq> CHR ''-'' \<and> digit_char n \<noteq> CHR ''+''"
    by (elim disjE) (simp_all add: digit_char_def digit_value_def isspace_def)
  then show "digit_value (digit_char n) = Some (int (n mod 10))"
    "\<not> isspace (digit_char n)" "digit_char n \<noteq> CHR ''-''" "digit_char n \<noteq> CHR ''+''"
    by blast+
qed

lemma toInt_two_digits: "n < 100 \<Longrightarrow> toInt (two_digits n) = int n"
proof -
  assume n: "n < 100"
  have "toInt (two_digits n) = int ((n div 10) mod 10) * 10 + int (n mod 10)"
    by (simp add: toInt_def two_digits_def digit_char_props)
  also have "(n div 10) mod 10 = n div 10" using n by simp
  finally show ?thesis by (simp add: of_nat_div of_nat_mod)
qed

lemma stamp_fields:
  assumes "length date = 10"
  shows "length (stamp date h m sec) = 19"
    and "substring (stamp date h m sec) 11 13 = two_digits h"
    and "substring (stamp date h m sec) 14 16 = two_digits m"
  using assms by (simp_all add: stamp_def substring_def two_digits_def)

lemma timeDiffMinutes_stamp:
  assumes "length date = 10" "length date' = 10" "h < 24" "m < 60" "h' < 24" "m' < 60"
  shows "timeDiffMinutes (stamp date' h' m' sec') (stamp date h m sec)
           = (int (h' * 60 + m') - int (h * 60 + m)) mod 1440"
proof -
  have "timeDiffMinutes (stamp date' h' m' sec') (stamp date h m sec)
          = (let d = (int h' * 60 + int m') - (int h * 60 + int m)
             in if d < 0 then d + 24 * 60 else d)"
    using assms by (simp add: timeDiffMinutes_def stamp_fields toInt_two_digits Let_def)
  also have "\<dots> = (int (h' * 60 + m') - int (h * 60 + m)) mod 1440"
  proof (cases "int (h' * 60 + m') - int (h * 60 + m) < 0")
    case True
    have "(int (h' * 60 + m') - int (h * 60 + m)) mod 1440
            = (int (h' * 60 + m') - int (h * 60 + m) + 1440) mod 1440"
      by simp
    also have "\<dots> = int (h' * 60 + m') - int (h * 60 + m) + 1440"
      using True assms by (intro mod_pos_pos_trivial) auto
    finally show ?thesis using True by (simp add: Let_def)
  next
    case False
    then have "(int (h' * 60 + m') - int (h * 60 + m)) mod 1440
            = int (h' * 60 + m') - int (h * 60 + m)"
      using assms by (intro mod_pos_pos_trivial) auto
    then show ?thesis using False by (simp add: Let_def)
  qed
  finally show ?thesis .
qed

text \<open>
  Claim C5, as the code has it. An observation with a non-empty timestamp is dropped, with
  no change of state and no output, when \<open>timeDiffMinutes\<close> of the node's time and the
  timestamp exceeds 2. For two timestamps in the format of \<^verbatim>\<open>strftime\<close> that number
  is the difference of the two times of day in minutes, modulo 24 hours: the dates and the
  seconds play no part.
\<close>

theorem stale_observation_rejected:
  "(vc_timestamp doc = Some ts \<and> ts \<noteq> [] \<and> timeDiffMinutes (currentTimestamp e) ts > 2
      \<longrightarrow> mqtt_callback e (VehicleCount (Some doc)) s = s)
   \<and> (length date = 10 \<and> length date' = 10 \<and> h < 24 \<and> m < 60 \<and> h' < 24 \<and> m' < 60
      \<longrightarrow> timeDiffMinutes (stamp date' h' m' sec') (stamp date h m sec)
           = (int (h' * 60 + m') - int (h * 60 + m)) mod 1440)"
proof (intro conjI impI)
  assume a: "vc_timestamp doc = Some ts \<and> ts \<noteq> [] \<and> timeDiffMinutes (currentTimestamp e) ts > 2"
  then have "too_old e doc"
    by (simp add: too_old_def doc_msgTimestamp_def)
  then show "mqtt_callback e (VehicleCount (Some doc)) s = s"
    by (rule callback_too_old)
next
  assume "length date = 10 \<and> length date' = 10 \<and> h < 24 \<and> m < 60 \<and> h' < 24 \<and> m' < 60"
  then show "timeDiffMinutes (stamp date' h' m' sec') (stamp date h m sec)
           = (int (h' * 60 + m') - int (h * 60 + m)) mod 1440"
    using timeDiffMinutes_stamp by blast
qed

lemma stale_witness_facts:
  "vc_timestamp (observation 7 ''2025-04-22 10:00:00'') = Some ''2025-04-22 10:00:00''
   \<and> ''2025-04-22 10:00:00'' \<noteq> []
   \<and> timeDiffMinutes (currentTimestamp at_10_05_00) ''2025-04-22 10:00:00'' > 2
   \<and> length ''2025-04-22'' = 10
   \<and> stamp ''2025-04-22'' 10 5 0 = ''2025-04-22 10:05:00''
   \<and> stamp ''2025-04-21'' 23 58 7 = ''2025-04-21 23:58:07''"
  by code_simp

text \<open>
  An observation stamped 10:00 arriving at 10:05 is dropped; from 23:58 to 10:05 of the
  next day the difference is 607 minutes.
\<close>

theorem stale_observation_rejected_witness:
  "mqtt_callback at_10_05_00 (VehicleCount (Some (observation 7 ''2025-04-22 10:00:00'')))
       turn_3_two_vehicles = turn_3_two_vehicles
   \<and> timeDiffMinutes ''2025-04-22 10:05:00'' ''2025-04-21 23:58:07'' = 607"
proof -
  note t = stale_observation_rejected [of "observation 7 ''2025-04-22 10:00:00''"
      "''2025-04-22 10:00:00''" at_10_05_00 turn_3_two_vehicles
      "''2025-04-21''" "''2025-04-22''" 23 58 10 5 0 7]
  have a: "mqtt_callback at_10_05_00 (VehicleCount (Some (observation 7 ''2025-04-22 10:00:00'')))
       turn_3_two_vehicles = turn_3_two_vehicles"
    using t stale_witness_facts by blast
  have "timeDiffMinutes (stamp ''2025-04-22'' 10 5 0) (stamp ''2025-04-21'' 23 58 7)
           = (int (10 * 60 + 5) - int (23 * 60 + 58)) mod 1440"
    using t by simp
  then have b: "timeDiffMinutes ''2025-04-22 10:05:00'' ''2025-04-21 23:58:07'' = 607"
    using stale_witness_facts by simp
  from a b show ?thesis by blast
qed

text \<open>
  Claim C5, as stated, fails. An observation stamped a day before, at the same time of
  day, is 86430 seconds old and is accepted; so is one that is 179 seconds old, whose
  minute differs by 2 only.
\<close>

theorem stale_observation_counterexample:
  "spec_age_seconds (currentTimestamp at_10_00_30) ''2025-04-21 10:00:00'' = 86430
   \<and> vehicleCount (mqtt_callback at_10_00_30
        (VehicleCount (Some (observation 7 ''2025-04-21 10:00:00''))) init_node) = 7
   \<and> new_data (lastReceivedData (mqtt_callback at_10_00_30
        (VehicleCount (Some (observation 7 ''2025-04-21 10:00:00''))) init_node))
   \<and> spec_age_seconds (currentTimestamp at_10_02_59) ''2025-04-22 10:00:00'' = 179
   \<and> vehicleCount (mqtt_callback at_10_02_59
        (VehicleCount (Some (observation 7 ''2025-04-22 10:00:00''))) init_node) = 7
   \<and> vehicleCount init_node = 0"
  by code_simp

section \<open>Repeated observations\<close>

lemma callback_duplicate:
  "isDuplicateData s doc \<Longrightarrow> mqtt_callback e (VehicleCount (Some doc)) s = s"
  by (simp add: on_vehicle_count_def)

lemma callback_accepts:
  "doc_road_section_id doc = ROAD_SECTION_ID \<Longrightarrow> \<not> too_old e doc \<Longrightarrow>
   \<not> isDuplicateData s doc \<Longrightarrow>
   mqtt_callback e (VehicleCount (Some doc)) s = store_vehicle_count e doc s"
  by (simp add: on_vehicle_count_def)

lemma stored_is_duplicate:
  "vc_timestamp doc \<noteq> None \<Longrightarrow> isDuplicateData (store_vehicle_count e doc s) doc"
  by (auto simp: isDuplicateData_def store_vehicle_count_def doc_msgTimestamp_def)

lemma callback_consumed:
  "doc_road_section_id doc = ROAD_SECTION_ID \<Longrightarrow> \<not> new_data (lastReceivedData s) \<Longrightarrow>
   mqtt_callback e (VehicleCount (Some doc)) s
     = (if too_old e doc then s else store_vehicle_count e doc s)"
  by (simp add: on_vehicle_count_def isDuplicateData_def)

lemma callback_unstamped:
  "doc_road_section_id doc = ROAD_SECTION_ID \<Longrightarrow> vc_timestamp doc = None \<Longrightarrow>
   timestamp (lastReceivedData s) \<noteq> [] \<Longrightarrow>
   mqtt_callback e (VehicleCount (Some doc)) s = store_vehicle_count e doc s"
  by (simp add: on_vehicle_count_def isDuplicateData_def too_old_def doc_msgTimestamp_def)

lemma stored_unstamped:
  "vc_timestamp doc = None \<Longrightarrow>
   timestamp (lastReceivedData (store_vehicle_count e doc s)) = currentTimestamp e"
  by (simp add: store_vehicle_count_def)

text \<open>
  Claim C6, as the code has it. A message that equals the stored observation in count,
  section and timestamp is dropped, with no change of state and no output, as long as the
  stored observation is still marked as new. In particular, when a message that carries a
  timestamp has just been accepted, delivering it again changes nothing. Once the stored
  observation is no longer marked as new, a message for this lane, the repeated one
  included, is dropped if it is too old at that moment and stored otherwise. A message
  for this lane without timestamp that has been stored under a clock reading that is not
  empty is stored again when it is delivered again. Storing marks the observation as new
  and as not yet published, and records the time of receipt.
\<close>

theorem duplicate_redelivery_ignored:
  "(isDuplicateData s doc \<longrightarrow> mqtt_callback e (VehicleCount (Some doc)) s = s)
   \<and> (vc_timestamp doc \<noteq> None \<and> doc_road_section_id doc = ROAD_SECTION_ID
        \<and> \<not> too_old e1 doc \<and> \<not> isDuplicateData s doc
      \<longrightarrow> mqtt_callback e1 (VehicleCount (Some doc)) s = store_vehicle_count e1 doc s
          \<and> mqtt_callback e2 (VehicleCount (Some doc))
                (mqtt_callback e1 (VehicleCount (Some doc)) s)
              = mqtt_callback e1 (VehicleCount (Some doc)) s)
   \<and> (doc_road_section_id doc = ROAD_SECTION_ID \<and> \<not> new_data (lastReceivedData s)
      \<longrightarrow> mqtt_callback e (VehicleCount (Some doc)) s
            = (if too_old e doc then s else store_vehicle_count e doc s))
   \<and> (doc_road_section_id doc = ROAD_SECTION_ID \<and> vc_timestamp doc = None
        \<and> currentTimestamp e1 \<noteq> []
      \<longrightarrow> mqtt_callback e2 (VehicleCount (Some doc)) (store_vehicle_count e1 doc s)
            = store_vehicle_count e2 doc (store_vehicle_count e1 doc s))
   \<and> new_data (lastReceivedData (store_vehicle_count e doc s))
   \<and> \<not> duration_published (lastReceivedData (store_vehicle_count e doc s))
   \<and> data_received_time (lastReceivedData (store_vehicle_count e doc s)) = millis e"
proof (intro conjI impI)
  assume "isDuplicateData s doc"
  then show "mqtt_callback e (VehicleCount (Some doc)) s = s"
    by (rule callback_duplicate)
next
  assume a: "vc_timestamp doc \<noteq> None \<and> doc_road_section_id doc = ROAD_SECTION_ID
        \<and> \<not> too_old e1 doc \<and> \<not> isDuplicateData s doc"
  then show eq: "mqtt_callback e1 (VehicleCount (Some doc)) s = store_vehicle_count e1 doc s"
    using callback_accepts by blast
  from a have "isDuplicateData (store_vehicle_count e1 doc s) doc"
    using stored_is_duplicate by blast
  then show "mqtt_callback e2 (VehicleCount (Some doc))
                (mqtt_callback e1 (VehicleCount (Some doc)) s)
              = mqtt_callback e1 (VehicleCount (Some doc)) s"
    unfolding eq by (rule callback_duplicate)
next
  assume "doc_road_section_id doc = ROAD_SECTION_ID \<and> \<not> new_data (lastReceivedData s)"
  then show "mqtt_callback e (VehicleCount (Some doc)) s
            = (if too_old e doc then s else store_vehicle_count e doc s)"
    using callback_consumed by blast
next
  assume a: "doc_road_section_id doc = ROAD_SECTION_ID \<and> vc_timestamp doc = None
        \<and> currentTimestamp e1 \<noteq> []"
  then have "timestamp (lastReceivedData (store_vehicle_count e1 doc s)) \<noteq> []"
    using stored_unstamped [of doc e1 s] by simp
  with a show "mqtt_callback e2 (VehicleCount (Some doc)) (store_vehicle_count e1 doc s)
            = store_vehicle_count e2 doc (store_vehicle_count e1 doc s)"
    using callback_unstamped by blast
next
  show "new_data (lastReceivedData (store_vehicle_count e doc s))"
    by (simp add: store_vehicle_count_def)
next
  show "\<not> duration_published (lastReceivedData (store_vehicle_count e doc s))"
    by (simp add: store_vehicle_count_def)
next
  show "data_received_time (lastReceivedData (store_vehicle_count e doc s)) = millis e"
    by (simp add: store_vehicle_count_def)
qed

lemma duplicate_witness_facts:
  "vc_timestamp (observation 2 ''2025-04-22 10:00:00'') \<noteq> None
   \<and> doc_road_section_id (observation 2 ''2025-04-22 10:00:00'') = ROAD_SECTION_ID
   \<and> \<not> too_old at_10_00_30 (observation 2 ''2025-04-22 10:00:00'')
   \<and> \<not> isDuplicateData init_node (observation 2 ''2025-04-22 10:00:00'')
   \<and> isDuplicateData turn_3_two_vehicles (observation 2 ''2025-04-22 10:00:00'')"
  by code_simp

lemma consumed_witness_facts:
  "doc_road_section_id (observation 0 ''2025-04-22 10:00:00'') = ROAD_SECTION_ID
   \<and> \<not> new_data (lastReceivedData
          (loop quiet_loop (mqtt_callback at_10_00_30 empty_lane_observation init_node)))
   \<and> \<not> too_old at_10_02_59 (observation 0 ''2025-04-22 10:00:00'')
   \<and> too_old at_10_05_00 (observation 0 ''2025-04-22 10:00:00'')"
  by code_simp

lemma unstamped_witness_facts:
  "doc_road_section_id unstamped_doc = ROAD_SECTION_ID
   \<and> vc_timestamp unstamped_doc = None
   \<and> currentTimestamp at_10_00_30 \<noteq> []"
  by code_simp

text \<open>
  The observation of two vehicles, delivered twice to the initial state, and once more to
  the state that holds it. The observation of an empty lane, delivered again after a
  call of the loop has used it up: at 10:02 it is stored again, at 10:05 it is dropped as
  too old. The observation without timestamp, delivered again to the state that has just
  stored it.
\<close>

theorem duplicate_redelivery_ignored_witness:
  "mqtt_callback at_10_02_59 (VehicleCount (Some (observation 2 ''2025-04-22 10:00:00'')))
     (mqtt_callback at_10_00_30 (VehicleCount (Some (observation 2 ''2025-04-22 10:00:00'')))
        init_node)
   = mqtt_callback at_10_00_30 (VehicleCount (Some (observation 2 ''2025-04-22 10:00:00'')))
        init_node
   \<and> mqtt_callback at_10_02_59 (VehicleCount (Some (observation 2 ''2025-04-22 10:00:00'')))
        turn_3_two_vehicles = turn_3_two_vehicles
   \<and> mqtt_callback at_10_02_59 (VehicleCount (Some (observation 0 ''2025-04-22 10:00:00'')))
        (loop quiet_loop (mqtt_callback at_10_00_30 empty_lane_observation init_node))
     = store_vehicle_count at_10_02_59 (observation 0 ''2025-04-22 10:00:00'')
        (loop quiet_loop (mqtt_callback at_10_00_30 empty_lane_observation init_node))
   \<and> mqtt_callback at_10_05_00 (VehicleCount (Some (observation 0 ''2025-04-22 10:00:00'')))
        (loop quiet_loop (mqtt_callback at_10_00_30 empty_lane_observation init_node))
     = loop quiet_loop (mqtt_callback at_10_00_30 empty_lane_observation init_node)
   \<and> mqtt_callback at_10_02_59 (VehicleCount (Some unstamped_doc))
        (store_vehicle_count at_10_00_30 unstamped_doc init_node)
     = store_vehicle_count at_10_02_59 unstamped_doc
        (store_vehicle_count at_10_00_30 unstamped_doc init_node)"
  using duplicate_redelivery_ignored [of turn_3_two_vehicles
      "observation 2 ''2025-04-22 10:00:00''" at_10_02_59 at_10_00_30 at_10_02_59]
    duplicate_redelivery_ignored [of init_node
      "observation 2 ''2025-04-22 10:00:00''" at_10_02_59 at_10_00_30 at_10_02_59]
    duplicate_redelivery_ignored [of
      "loop quiet_loop (mqtt_callback at_10_00_30 empty_lane_observation init_node)"
      "observation 0 ''2025-04-22 10:00:00''" at_10_02_59 at_10_00_30 at_10_02_59]
    duplicate_redelivery_ignored [of
      "loop quiet_loop (mqtt_callback at_10_00_30 empty_lane_observation init_node)"
      "observation 0 ''2025-04-22 10:00:00''" at_10_05_00 at_10_00_30 at_10_02_59]
    duplicate_redelivery_ignored [of init_node unstamped_doc at_10_02_59 at_10_00_30 at_10_02_59]
    duplicate_witness_facts consumed_witness_facts unstamped_witness_facts
  by metis

text \<open>
  Claim C6, as stated, fails. Lane 3 accepts the observation of an empty lane while it is
  not its turn; the next call of the loop publishes the duration and clears the flags.
  The same message, delivered again, is accepted as new, and the following call of the
  loop publishes the duration a second time. A message without timestamp is accepted
  again even at once: the time of receipt changes from 1000 to 150000.
\<close>

theorem consumed_observation_counterexample:
  "new_data (lastReceivedData (mqtt_callback at_10_00_30 empty_lane_observation init_node))
   \<and> \<not> new_data (lastReceivedData
          (loop quiet_loop (mqtt_callback at_10_00_30 empty_lane_observation init_node)))
   \<and> new_data (lastReceivedData
        (mqtt_callback at_10_00_30 empty_lane_observation
          (loop quiet_loop (mqtt_callback at_10_00_30 empty_lane_observation init_node))))
   \<and> trace (loop quiet_loop (mqtt_callback at_10_00_30 empty_lane_observation init_node))
        = [Publish (DurationMsg 3 0 10 ''2025-04-22 10:00:00'')]
   \<and> trace (loop quiet_loop
        (mqtt_callback at_10_00_30 empty_lane_observation
          (loop quiet_loop (mqtt_callback at_10_00_30 empty_lane_observation init_node))))
        = [Publish (DurationMsg 3 0 10 ''2025-04-22 10:00:00''),
           Publish (DurationMsg 3 0 10 ''2025-04-22 10:00:00'')]
   \<and> data_received_time (lastReceivedData
        (mqtt_callback at_10_00_30 unstamped_observation init_node)) = 1000
   \<and> data_received_time (lastReceivedData
        (mqtt_callback at_10_02_59 unstamped_observation
          (mqtt_callback at_10_00_30 unstamped_observation init_node))) = 150000"
  by code_simp

end
